theory Spec2Isabelle
  imports Complex_Main "HOL-Library.Word" "HOL-Library.Log_Nat"
begin

section \<open>The float64 values the check computes with\<close>

text \<open>
  \<open>main.go\<close> keeps both thresholds and both scaled temperatures as Go \<open>float64\<close>.
  A float64 is a finite binary fraction, an infinity or a NaN. The finite ones are
  carried as the real number they denote; the two zeros are one value here, which no
  comparison distinguishes and which the conversion of an integer never produces
  negatively.
\<close>

datatype f64 = Fin real | PInf | NInf | NaN

text \<open>Go's \<open>a > b\<close> on float64: false as soon as one side is a NaN.\<close>

fun f64_gt :: "f64 \<Rightarrow> f64 \<Rightarrow> bool" where
  "f64_gt NaN b = False"
| "f64_gt a NaN = False"
| "f64_gt PInf b = (b \<noteq> PInf)"
| "f64_gt a PInf = False"
| "f64_gt NInf b = False"
| "f64_gt (Fin x) NInf = True"
| "f64_gt (Fin x) (Fin y) = (y < x)"

text \<open>Go's \<open>a >= b\<close> on float64.\<close>

fun f64_ge :: "f64 \<Rightarrow> f64 \<Rightarrow> bool" where
  "f64_ge NaN b = False"
| "f64_ge a NaN = False"
| "f64_ge PInf b = True"
| "f64_ge a NInf = True"
| "f64_ge NInf b = False"
| "f64_ge (Fin x) PInf = False"
| "f64_ge (Fin x) (Fin y) = (y \<le> x)"

text \<open>Powers of two with an integer exponent.\<close>

definition pow2 :: "int \<Rightarrow> real" where
  "pow2 k = (if 0 \<le> k then 2 ^ nat k else 1 / 2 ^ nat (- k))"

text \<open>The binary exponent of a non-zero real: the \<open>e\<close> with \<open>2^e \<le> |x| < 2^(e+1)\<close>.\<close>

definition binexp :: "real \<Rightarrow> int" where
  "binexp x = (if 1 \<le> \<bar>x\<bar> then bitlen \<lfloor>\<bar>x\<bar>\<rfloor> - 1 else - bitlen (\<lceil>1 / \<bar>x\<bar>\<rceil> - 1))"

text \<open>Rounding to the nearest integer, a tie going to the even neighbour.\<close>

definition round_half_even :: "real \<Rightarrow> int" where
  "round_half_even y =
     (let f = \<lfloor>y\<rfloor>; d = y - of_int f
      in if d < 1 / 2 then f else if 1 / 2 < d then f + 1 else if even f then f else f + 1)"

text \<open>
  IEEE 754 binary64 rounding of an exact result, to nearest with ties to even: 53
  significant bits, the quantum never below \<open>2^-1074\<close> (subnormals), and an infinity once
  the rounded magnitude reaches \<open>2^1024\<close>.
\<close>

definition f64_round :: "real \<Rightarrow> f64" where
  "f64_round x =
     (if x = 0 then Fin 0
      else let q = max (binexp x) (- 1022) - 52;
               r = of_int (round_half_even (x / pow2 q)) * pow2 q
           in if pow2 1024 \<le> r then PInf else if r \<le> - pow2 1024 then NInf else Fin r)"

text \<open>Go's conversion \<open>float64(n)\<close> of an \<open>int\<close>.\<close>

definition f64_of_int :: "int \<Rightarrow> f64" where
  "f64_of_int n = f64_round (of_int n)"

text \<open>
  Go's \<open>a / d\<close> on float64 where the divisor is a finite non-zero constant, as
  \<open>100.0\<close> is in \<open>executeCheck\<close>.
\<close>

fun f64_div :: "f64 \<Rightarrow> real \<Rightarrow> f64" where
  "f64_div (Fin a) d = f64_round (a / d)"
| "f64_div PInf d = (if 0 < d then PInf else NInf)"
| "f64_div NInf d = (if 0 < d then NInf else PInf)"
| "f64_div NaN d = NaN"

section \<open>Formatting with \<open>%.2f\<close>\<close>

definition digit :: "nat \<Rightarrow> char" where
  "digit d = ''0123456789'' ! (d mod 10)"

text \<open>The decimal digits of a natural number, without leading zeros.\<close>

function dec :: "nat \<Rightarrow> string" where
  "dec n = (if n < 10 then [digit n] else dec (n div 10) @ [digit n])"
  by pat_completeness auto
termination
  by (relation "measure id") auto

declare dec.simps [simp del]

text \<open>
  Go's \<open>fmt\<close> verb \<open>%.2f\<close> on a float64: the exact value rounded to two decimals (a tie
  to the even digit), the sign taken from the value, at least one digit before the
  point; the non-finite values have fixed spellings.
\<close>

fun fmt_f2 :: "f64 \<Rightarrow> string" where
  "fmt_f2 (Fin x) =
     (let n = nat (round_half_even (\<bar>x\<bar> * 100))
      in (if x < 0 then ''-'' else '''') @ dec (n div 100) @ ''.'' @
         [digit (n div 10), digit n])"
| "fmt_f2 PInf = ''+Inf''"
| "fmt_f2 NInf = ''-Inf''"
| "fmt_f2 NaN = ''NaN''"

section \<open>Data of the check\<close>

text \<open>The three check states of the plugin SDK that \<open>main.go\<close> returns.\<close>

datatype check_state = CheckStateOK | CheckStateWarning | CheckStateCritical

text \<open>\<open>Config\<close>: the plugin's name and the four options.\<close>

record Config =
  Name :: string
  Target :: string
  Community :: string
  Warning :: f64
  Critical :: f64

text \<open>
  The value of an SNMP variable is a Go \<open>interface{}\<close>: a value together with its
  dynamic type. \<open>[]uint8\<close> and \<open>[]byte\<close> are one type; \<open>int\<close> is the 64-bit native
  integer.
\<close>

datatype go_value =
    GoNil
  | GoBytes string
  | GoInt "64 word"
  | GoInt64 "64 word"
  | GoUint "64 word"
  | GoUint32 "32 word"
  | GoUint64 "64 word"
  | GoFloat32 f64
  | GoFloat64 f64
  | GoString string
  | GoOther string

record SnmpPDU =
  Value :: go_value

record SnmpPacket =
  Variables :: "SnmpPDU list"

text \<open>The type assertions \<open>v.([]uint8)\<close> and \<open>v.(int)\<close>, with their \<open>ok\<close> result.\<close>

fun assert_bytes :: "go_value \<Rightarrow> string option" where
  "assert_bytes (GoBytes b) = Some b"
| "assert_bytes v = None"

fun assert_int :: "go_value \<Rightarrow> 64 word option" where
  "assert_int (GoInt i) = Some i"
| "assert_int v = None"

section \<open>The world the check runs in\<close>

datatype snmp_version = Version1 | Version2c | Version3

datatype conn_state = NoConn | ConnOpen | ConnClosed

datatype snmp_call = CallConnect | CallGet "string list" | CallClose

text \<open>
  \<open>gosnmp.Default\<close>, the library's shared handle: the three fields \<open>executeCheck\<close>
  assigns and the state of its connection.
\<close>

record GoSNMP =
  snmpTarget :: string
  snmpCommunity :: string
  snmpVersion :: snmp_version
  Conn :: conn_state

text \<open>What the process has printed, the shared handle, and the library calls made so far.\<close>

record world =
  stdout :: string
  Default :: GoSNMP
  calls :: "snmp_call list"

text \<open>
  What the network answers in one invocation: the error of \<open>Connect\<close> (if any) and the
  result of \<open>Get\<close>, an error or a packet.
\<close>

record device =
  connect_err :: "string option"
  get_result :: "string + SnmpPacket"

text \<open>
  How a call of \<open>executeCheck\<close> ends: it returns a state and an error, or indexing the
  variables panics with the index and the length.
\<close>

datatype outcome = Returned check_state "string option" | IndexOutOfRange nat nat

definition nl :: string where
  "nl = [CHR 0x0A]"

definition printf :: "string \<Rightarrow> world \<Rightarrow> world" where
  "printf s w = w\<lparr>stdout := stdout w @ s\<rparr>"

definition called :: "snmp_call \<Rightarrow> world \<Rightarrow> world" where
  "called c w = w\<lparr>calls := calls w @ [c]\<rparr>"

definition set_conn :: "conn_state \<Rightarrow> world \<Rightarrow> world" where
  "set_conn c w = w\<lparr>Default := (Default w)\<lparr>Conn := c\<rparr>\<rparr>"

section \<open>\<open>checkArgs\<close>\<close>

text \<open>
  \<open>checkArgs\<close> (lines 69 to 82). \<open>net.ParseIP\<close> belongs to the Go standard library; it
  is the parameter \<open>parseIP\<close>, \<open>None\<close> standing for its \<open>nil\<close> result. The function
  reads the configuration and touches nothing else, so the world comes back as it went
  in.
\<close>

definition checkArgs ::
  "(string \<Rightarrow> 'ip option) \<Rightarrow> Config \<Rightarrow> world \<Rightarrow> (check_state \<times> string option) \<times> world" where
  "checkArgs parseIP plugin w =
     (if Target plugin = '''' then
        ((CheckStateCritical, Some ''target unit must be specified.''), w)
      else if parseIP (Target plugin) = None then
        ((CheckStateCritical, Some ''target must be an IP address.''), w)
      else ((CheckStateOK, None), w))"

section \<open>\<open>executeCheck\<close>\<close>

definition oids :: "string list" where
  "oids = [''.1.3.6.1.2.1.1.6.0'', ''.1.3.6.1.4.1.20916.1.7.1.1.1.1.0'',
           ''.1.3.6.1.4.1.20916.1.7.1.2.1.1.0'']"

text \<open>Lines 130 and 131: \<open>float64(raw) / 100.0\<close>.\<close>

definition scale :: "64 word \<Rightarrow> f64" where
  "scale raw = f64_div (f64_of_int (sint raw)) 100"

text \<open>Line 134.\<close>

definition perfData :: "f64 \<Rightarrow> f64 \<Rightarrow> string" where
  "perfData internal_temperature external_temperature =
     ''tempager_internal='' @ fmt_f2 internal_temperature @
     '', tempager_external='' @ fmt_f2 external_temperature"

text \<open>Line 135, the string \<open>t\<close>.\<close>

definition status_line :: "string \<Rightarrow> f64 \<Rightarrow> string \<Rightarrow> string" where
  "status_line location external_temperature pd =
     location @ '' temperature is '' @ fmt_f2 external_temperature @ ''c | '' @ pd @ nl"

text \<open>Lines 137 to 148: the two comparisons, each printing and returning.\<close>

definition report :: "Config \<Rightarrow> f64 \<Rightarrow> string \<Rightarrow> world \<Rightarrow> outcome \<times> world" where
  "report plugin external_temperature t w =
     (if f64_gt external_temperature (Critical plugin) then
        (Returned CheckStateCritical None, printf (Name plugin @ '' CRITICAL: '' @ t) w)
      else if f64_gt external_temperature (Warning plugin) then
        (Returned CheckStateWarning None, printf (Name plugin @ '' WARNING: '' @ t) w)
      else (Returned CheckStateOK None, printf (Name plugin @ '' OK: '' @ t) w))"

text \<open>
  Lines 108 to 148: the three variables are indexed in turn, each one type-asserted
  before the next is indexed; an index beyond the length panics.
\<close>

definition interpret_result :: "Config \<Rightarrow> SnmpPacket \<Rightarrow> world \<Rightarrow> outcome \<times> world" where
  "interpret_result plugin result w =
     (let vs = Variables result in
      if length vs \<le> 0 then (IndexOutOfRange 0 (length vs), w)
      else (case assert_bytes (Value (vs ! 0)) of
        None \<Rightarrow> (Returned CheckStateCritical None,
                  printf (Name plugin @ '' CRITICAL: failed to read location.'' @ nl) w)
      | Some location_oid \<Rightarrow>
      (if length vs \<le> 1 then (IndexOutOfRange 1 (length vs), w)
       else (case assert_int (Value (vs ! 1)) of
        None \<Rightarrow> (Returned CheckStateCritical None,
                  printf (Name plugin @ '' CRITICAL: failed to read internal temperature.'' @ nl) w)
      | Some inttemp_oid \<Rightarrow>
      (if length vs \<le> 2 then (IndexOutOfRange 2 (length vs), w)
       else (case assert_int (Value (vs ! 2)) of
        None \<Rightarrow> (Returned CheckStateCritical None,
                  printf (Name plugin @ '' CRITICAL: failed to read external temperature.'' @ nl) w)
      | Some exttemp_oid \<Rightarrow>
          (let location = location_oid;
               internal_temperature = scale inttemp_oid;
               external_temperature = scale exttemp_oid;
               pd = perfData internal_temperature external_temperature;
               t = status_line location external_temperature pd
           in report plugin external_temperature t w)))))))"

text \<open>Lines 100 to 148: the one \<open>Get\<close> and, when it succeeds, the interpretation.\<close>

definition gather :: "Config \<Rightarrow> device \<Rightarrow> world \<Rightarrow> outcome \<times> world" where
  "gather plugin dev w =
     (let w1 = called (CallGet oids) w in
      case get_result dev of
        Inl err \<Rightarrow> (Returned CheckStateCritical None,
                    printf (Name plugin @ '' CRITICAL: failed to gather oids.'' @ nl) w1)
      | Inr result \<Rightarrow> interpret_result plugin result w1)"

text \<open>Lines 87 to 89: the shared handle is pointed at the target.\<close>

definition configure :: "Config \<Rightarrow> world \<Rightarrow> world" where
  "configure plugin w =
     w\<lparr>Default := (Default w)\<lparr>snmpTarget := Target plugin,
                                  snmpCommunity := Community plugin,
                                  snmpVersion := Version1\<rparr>\<rparr>"

text \<open>
  \<open>executeCheck\<close> (lines 84 to 149). The deferred \<open>Close\<close> of line 97 runs when the
  function is left after a successful \<open>Connect\<close>, by a return or by a panic.
\<close>

definition executeCheck :: "Config \<Rightarrow> device \<Rightarrow> world \<Rightarrow> outcome \<times> world" where
  "executeCheck plugin dev w =
     (let w1 = configure plugin w;
          w2 = called CallConnect w1
      in case connect_err dev of
           Some err \<Rightarrow> (Returned CheckStateCritical None,
                        printf (Name plugin @ '' CRITICAL: failed to connect to tempager.'' @ nl) w2)
         | None \<Rightarrow>
             (let (out, w3) = gather plugin dev (set_conn ConnOpen w2)
              in (out, set_conn ConnClosed (called CallClose w3))))"

text \<open>The start of an invocation: nothing printed, no call made, no connection.\<close>

definition world0 :: world where
  "world0 = \<lparr>stdout = '''',
            Default = \<lparr>snmpTarget = '''', snmpCommunity = '''', snmpVersion = Version2c,
                       Conn = NoConn\<rparr>,
            calls = []\<rparr>"

section \<open>Inputs and readings used in the statements\<close>

definition pdu :: "go_value \<Rightarrow> SnmpPDU" where
  "pdu v = \<lparr>Value = v\<rparr>"

text \<open>A device that accepts the connection and answers the \<open>Get\<close> with the variables \<open>vs\<close>.\<close>

definition answers :: "SnmpPDU list \<Rightarrow> device" where
  "answers vs = \<lparr>connect_err = None, get_result = Inr \<lparr>Variables = vs\<rparr>\<rparr>"

text \<open>
  A successful read: the location as bytes and the two raw temperatures as native
  integers, in the order of the request.
\<close>

definition reading :: "string \<Rightarrow> 64 word \<Rightarrow> 64 word \<Rightarrow> device" where
  "reading location internal external =
     answers [pdu (GoBytes location), pdu (GoInt internal), pdu (GoInt external)]"

text \<open>
  Whether the variables that are present pass their type assertions, as far as the
  first two positions go.
\<close>

fun typed_prefix :: "SnmpPDU list \<Rightarrow> bool" where
  "typed_prefix [] = True"
| "typed_prefix [a] = (assert_bytes (Value a) \<noteq> None)"
| "typed_prefix (a # b # vs) =
     (assert_bytes (Value a) \<noteq> None \<and> assert_int (Value b) \<noteq> None)"

text \<open>The words the three \<open>Printf\<close> calls of lines 138, 143 and 147 put after the name.\<close>

fun severity_label :: "check_state \<Rightarrow> string" where
  "severity_label CheckStateCritical = '' CRITICAL: ''"
| "severity_label CheckStateWarning = '' WARNING: ''"
| "severity_label CheckStateOK = '' OK: ''"

text \<open>
  An integer number of hundredths written with two decimals: sign, whole part, point,
  two digits.
\<close>

definition two_decimals :: "int \<Rightarrow> string" where
  "two_decimals n =
     (if n < 0 then ''-'' else '''') @ dec (nat \<bar>n\<bar> div 100) @ ''.'' @
     [digit (nat \<bar>n\<bar> div 10), digit (nat \<bar>n\<bar>)]"

text \<open>The end-to-end scenario: default thresholds, a device in a server room.\<close>

definition scenario_plugin :: Config where
  "scenario_plugin =
     \<lparr>Name = ''check-tempager-3e-temperature'', Target = ''10.0.0.5'',
      Community = ''public'', Warning = Fin 35, Critical = Fin 40\<rparr>"

definition scenario_device :: device where
  "scenario_device = reading ''Server Room'' 2850 3620"

section \<open>Properties of the float64 rounding\<close>

subsection \<open>Powers of two and the binary exponent\<close>

lemma pow2_powr: "pow2 k = 2 powr (of_int k)"
proof (cases "0 \<le> k")
  case True
  then show ?thesis
    by (simp add: pow2_def powr_realpow [symmetric])
next
  case False
  then have "2 powr (of_int k) = 1 / (2::real) powr (of_int (- k))"
    by (simp add: powr_minus_divide)
  also have "\<dots> = 1 / 2 ^ nat (- k)"
    using False by (simp add: powr_realpow [symmetric])
  finally show ?thesis using False by (simp add: pow2_def)
qed

lemma pow2_pos [simp]: "0 < pow2 k"
  by (simp add: pow2_powr)

lemma pow2_add: "pow2 (a + b) = pow2 a * pow2 b"
  by (simp add: pow2_powr powr_add)

lemma pow2_less_iff: "pow2 a < pow2 b \<longleftrightarrow> a < b"
  by (simp add: pow2_powr)

lemma binexp_bounds:
  assumes "x \<noteq> 0"
  shows "pow2 (binexp x) \<le> \<bar>x\<bar>" and "\<bar>x\<bar> < pow2 (binexp x + 1)"
proof -
  have "pow2 (binexp x) \<le> \<bar>x\<bar> \<and> \<bar>x\<bar> < pow2 (binexp x + 1)"
  proof (cases "1 \<le> \<bar>x\<bar>")
    case True
    define n where "n = \<lfloor>\<bar>x\<bar>\<rfloor>"
    have n1: "1 \<le> n" using True by (simp add: n_def le_floor_iff)
    then have b1: "1 \<le> bitlen n" using bitlen_eq_zero_iff [of n] bitlen_nonneg [of n] by linarith
    have bb: "2 ^ nat (bitlen n - 1) \<le> n" "n < 2 ^ nat (bitlen n)"
      using bitlen_bounds [of n] n1 by auto
    have e: "binexp x = bitlen n - 1" using True by (simp add: binexp_def n_def)
    have "real_of_int (2 ^ nat (bitlen n - 1)) \<le> real_of_int n"
      using bb(1) of_int_le_iff by blast
    also have "\<dots> \<le> \<bar>x\<bar>" by (simp add: n_def)
    finally have lo: "pow2 (binexp x) \<le> \<bar>x\<bar>"
      using b1 by (simp add: e pow2_def)
    have "n + 1 \<le> 2 ^ nat (bitlen n)" using bb(2) by simp
    then have "real_of_int (n + 1) \<le> real_of_int (2 ^ nat (bitlen n))"
      using of_int_le_iff by blast
    moreover have "\<bar>x\<bar> < real_of_int (n + 1)" by (simp add: n_def)
    ultimately have hi: "\<bar>x\<bar> < pow2 (binexp x + 1)"
      using b1 by (simp add: e pow2_def)
    from lo hi show ?thesis ..
  next
    case False
    define y where "y = 1 / \<bar>x\<bar>"
    have xp: "0 < \<bar>x\<bar>" using assms by simp
    have y1: "1 < y" using False xp by (simp add: y_def)
    define m where "m = \<lceil>y\<rceil> - 1"
    have m1: "1 \<le> m" using y1 by (simp add: m_def less_ceiling_iff)
    have my: "real_of_int m < y" "y \<le> real_of_int m + 1"
      by (simp_all add: m_def) linarith+
    have b1: "1 \<le> bitlen m" using bitlen_eq_zero_iff [of m] bitlen_nonneg [of m] m1 by linarith
    have bb: "2 ^ nat (bitlen m - 1) \<le> m" "m < 2 ^ nat (bitlen m)"
      using bitlen_bounds [of m] m1 by auto
    have e: "binexp x = - bitlen m" using False by (simp add: binexp_def m_def y_def)
    have "m + 1 \<le> 2 ^ nat (bitlen m)" using bb(2) by simp
    then have "real_of_int (m + 1) \<le> real_of_int (2 ^ nat (bitlen m))"
      using of_int_le_iff by blast
    then have yhi: "y \<le> 2 ^ nat (bitlen m)" using my(2) by simp
    have "real_of_int (2 ^ nat (bitlen m - 1)) \<le> real_of_int m"
      using bb(1) of_int_le_iff by blast
    then have "(2::real) ^ nat (bitlen m - 1) \<le> real_of_int m" by simp
    then have ylo: "2 ^ nat (bitlen m - 1) < y" using my(1) by linarith
    have xy: "\<bar>x\<bar> = 1 / y" by (simp add: y_def)
    have lo: "pow2 (binexp x) \<le> \<bar>x\<bar>"
    proof -
      have "1 / 2 ^ nat (bitlen m) \<le> 1 / y"
        using yhi y1 by (simp add: frac_le)
      then show ?thesis using b1 by (simp add: e pow2_def xy)
    qed
    have hi: "\<bar>x\<bar> < pow2 (binexp x + 1)"
    proof -
      have "1 / y < 1 / 2 ^ nat (bitlen m - 1)"
        using ylo by (simp add: frac_less2)
      moreover have "pow2 (1 - bitlen m) = 1 / 2 ^ nat (bitlen m - 1)"
        using b1 by (cases "bitlen m = 1") (simp_all add: pow2_def)
      ultimately show ?thesis by (simp add: e xy)
    qed
    from lo hi show ?thesis ..
  qed
  then show "pow2 (binexp x) \<le> \<bar>x\<bar>" and "\<bar>x\<bar> < pow2 (binexp x + 1)" by simp_all
qed

lemma binexp_unique:
  assumes "pow2 e \<le> \<bar>x\<bar>" "\<bar>x\<bar> < pow2 (e + 1)"
  shows "binexp x = e"
proof -
  have "0 < \<bar>x\<bar>" using assms(1) pow2_pos [of e] by linarith
  then have x0: "x \<noteq> 0" by auto
  note b = binexp_bounds [OF x0]
  have "pow2 e < pow2 (binexp x + 1)" using assms(1) b(2) by linarith
  then have 1: "e < binexp x + 1" by (simp add: pow2_less_iff)
  have "pow2 (binexp x) < pow2 (e + 1)" using assms(2) b(1) by linarith
  then have 2: "binexp x < e + 1" by (simp add: pow2_less_iff)
  from 1 2 show ?thesis by linarith
qed

subsection \<open>Rounding to nearest\<close>

lemma pow2_nonzero [simp]: "pow2 k \<noteq> 0"
  using pow2_pos [of k] by linarith

lemma pow2_nonneg [simp]: "0 \<le> pow2 k"
  using pow2_pos [of k] by linarith

lemma abs_pow2 [simp]: "\<bar>pow2 k\<bar> = pow2 k"
  by simp

lemma round_half_even_err: "\<bar>real_of_int (round_half_even y) - y\<bar> \<le> 1 / 2"
proof -
  have "real_of_int \<lfloor>y\<rfloor> \<le> y" "y < real_of_int \<lfloor>y\<rfloor> + 1" by linarith+
  then show ?thesis
    by (auto simp: round_half_even_def Let_def)
qed

lemma round_half_even_of_int [simp]: "round_half_even (real_of_int n) = n"
  by (simp add: round_half_even_def Let_def)

lemma round_half_even_bound:
  assumes "\<bar>y\<bar> < real_of_int b"
  shows "\<bar>round_half_even y\<bar> \<le> b"
proof -
  have "\<bar>real_of_int (round_half_even y)\<bar> < real_of_int b + 1"
    using round_half_even_err [of y] assms by linarith
  then have "real_of_int \<bar>round_half_even y\<bar> < real_of_int (b + 1)" by simp
  then have "\<bar>round_half_even y\<bar> < b + 1" using of_int_less_iff by blast
  then show ?thesis by simp
qed

lemma f64_round_normal:
  assumes lo: "pow2 e \<le> \<bar>x\<bar>" and hi: "\<bar>x\<bar> < pow2 (e + 1)"
    and e1: "- 1022 \<le> e" and e2: "e < 1023"
  shows "f64_round x = Fin (real_of_int (round_half_even (x / pow2 (e - 52))) * pow2 (e - 52))"
proof -
  have "0 < \<bar>x\<bar>" using lo pow2_pos [of e] by linarith
  then have x0: "x \<noteq> 0" by auto
  have be: "binexp x = e" using lo hi by (rule binexp_unique)
  define q where "q = e - 52"
  define y where "y = x / pow2 q"
  define r where "r = real_of_int (round_half_even y) * pow2 q"
  have "\<bar>y\<bar> = \<bar>x\<bar> / pow2 q" by (simp add: y_def)
  also have "\<dots> < pow2 (e + 1) / pow2 q" using hi by (simp add: divide_strict_right_mono)
  also have "\<dots> = pow2 53"
  proof -
    have "pow2 (e + 1) = pow2 (53 + q)"
      unfolding q_def by (rule arg_cong [where f = pow2]) simp
    then have "pow2 (e + 1) = pow2 53 * pow2 q" by (simp only: pow2_add)
    then show ?thesis by simp
  qed
  finally have "\<bar>y\<bar> < real_of_int (2 ^ 53)" by (simp add: pow2_def)
  then have "\<bar>round_half_even y\<bar> \<le> 2 ^ 53" by (rule round_half_even_bound)
  then have "real_of_int \<bar>round_half_even y\<bar> \<le> real_of_int (2 ^ 53)"
    using of_int_le_iff by blast
  then have m: "\<bar>real_of_int (round_half_even y)\<bar> \<le> pow2 53" by (simp add: pow2_def)
  have "\<bar>r\<bar> = \<bar>real_of_int (round_half_even y)\<bar> * pow2 q"
    by (simp add: r_def abs_mult)
  also have "\<dots> \<le> pow2 53 * pow2 q" using m by (simp add: mult_right_mono)
  also have "\<dots> = pow2 (e + 1)"
  proof -
    have "pow2 (53 + q) = pow2 (e + 1)"
      unfolding q_def by (rule arg_cong [where f = pow2]) simp
    then show ?thesis by (simp only: pow2_add)
  qed
  also have "\<dots> < pow2 1024" using e2 by (simp add: pow2_less_iff)
  finally have rb: "\<bar>r\<bar> < pow2 1024" .
  have "max (binexp x) (- 1022) - 52 = q" using be e1 by (simp add: q_def)
  then have "f64_round x = (if pow2 1024 \<le> r then PInf else if r \<le> - pow2 1024 then NInf else Fin r)"
    using x0 by (simp add: f64_round_def Let_def r_def y_def)
  also have "\<dots> = Fin r" using rb by auto
  finally show ?thesis by (simp add: r_def y_def q_def)
qed

lemma f64_round_error:
  assumes lo: "pow2 e \<le> \<bar>x\<bar>" and hi: "\<bar>x\<bar> < pow2 (e + 1)"
    and e1: "- 1022 \<le> e" and e2: "e < 1023"
  obtains r where "f64_round x = Fin r" and "\<bar>r - x\<bar> \<le> \<bar>x\<bar> / 2 ^ 53"
proof -
  define q where "q = e - 52"
  define y where "y = x / pow2 q"
  define r where "r = real_of_int (round_half_even y) * pow2 q"
  have fr: "f64_round x = Fin r"
    using f64_round_normal [OF assms] by (simp add: r_def y_def q_def)
  have "r - x = (real_of_int (round_half_even y) - y) * pow2 q"
    by (simp add: r_def y_def algebra_simps)
  then have "\<bar>r - x\<bar> = \<bar>real_of_int (round_half_even y) - y\<bar> * pow2 q"
    by (simp add: abs_mult)
  also have "\<dots> \<le> 1 / 2 * pow2 q"
    using round_half_even_err [of y] by (simp add: mult_right_mono)
  also have "\<dots> = pow2 e / 2 ^ 53"
  proof -
    have "pow2 e = pow2 (52 + q)"
      unfolding q_def by (rule arg_cong [where f = pow2]) simp
    then have "pow2 e = pow2 52 * pow2 q" by (simp only: pow2_add)
    moreover have "pow2 52 = 2 ^ 52" by (simp add: pow2_def)
    ultimately show ?thesis by simp
  qed
  also have "\<dots> \<le> \<bar>x\<bar> / 2 ^ 53" using lo by (simp add: divide_right_mono)
  finally have "\<bar>r - x\<bar> \<le> \<bar>x\<bar> / 2 ^ 53" .
  with fr show ?thesis by (rule that)
qed

lemma f64_round_exact:
  assumes lo: "pow2 e \<le> \<bar>x\<bar>" and hi: "\<bar>x\<bar> < pow2 (e + 1)"
    and e1: "- 1022 \<le> e" and e2: "e < 1023"
    and k: "x / pow2 (e - 52) = real_of_int k"
  shows "f64_round x = Fin x"
proof -
  have "f64_round x = Fin (real_of_int k * pow2 (e - 52))"
    using f64_round_normal [OF lo hi e1 e2] by (simp add: k)
  also have "real_of_int k * pow2 (e - 52) = x"
    using k pow2_pos [of "e - 52"] by (simp add: field_simps)
  finally show ?thesis .
qed

lemma f64_of_int_exact:
  assumes "\<bar>n\<bar> < 2 ^ 53"
  shows "f64_of_int n = Fin (real_of_int n)"
proof (cases "n = 0")
  case True
  then show ?thesis by (simp add: f64_of_int_def f64_round_def)
next
  case False
  define x where "x = real_of_int n"
  have x0: "x \<noteq> 0" using False by (simp add: x_def)
  define e where "e = binexp x"
  note b = binexp_bounds [OF x0, folded e_def]
  have "1 \<le> \<bar>n\<bar>" using False by simp
  then have "1 \<le> \<bar>x\<bar>" by (simp add: x_def)
  then have "pow2 0 < pow2 (e + 1)" using b(2) by (simp add: pow2_def)
  then have e0: "0 \<le> e" by (simp add: pow2_less_iff)
  have "real_of_int \<bar>n\<bar> < real_of_int (2 ^ 53)" using assms of_int_less_iff by blast
  then have "\<bar>x\<bar> < pow2 53" by (simp add: x_def pow2_def)
  then have "pow2 e < pow2 53" using b(1) by linarith
  then have e53: "e < 53" by (simp add: pow2_less_iff)
  have "x / pow2 (e - 52) = x * 2 ^ nat (52 - e)"
    using e53 e0 by (simp add: pow2_def)
  also have "\<dots> = real_of_int (n * 2 ^ nat (52 - e))" by (simp add: x_def)
  finally have k: "x / pow2 (e - 52) = real_of_int (n * 2 ^ nat (52 - e))" .
  have "f64_round x = Fin x"
    using b(1) b(2) _ _ k by (rule f64_round_exact) (use e0 e53 in simp_all)
  then show ?thesis by (simp add: f64_of_int_def x_def)
qed

subsection \<open>The scaled temperature\<close>

lemma round_half_even_unique:
  assumes "\<bar>y - real_of_int k\<bar> < 1 / 2"
  shows "round_half_even y = k"
proof -
  have "\<lfloor>y\<rfloor> = k \<or> \<lfloor>y\<rfloor> = k - 1"
  proof (cases "real_of_int k \<le> y")
    case True
    then have "\<lfloor>y\<rfloor> = k" using assms by (intro floor_unique) linarith+
    then show ?thesis ..
  next
    case False
    then have "\<lfloor>y\<rfloor> = k - 1" using assms by (intro floor_unique) (simp, linarith)+
    then show ?thesis ..
  qed
  then show ?thesis
  proof
    assume f: "\<lfloor>y\<rfloor> = k"
    have "y - real_of_int \<lfloor>y\<rfloor> < 1 / 2" unfolding f using assms by linarith
    then show ?thesis by (simp add: round_half_even_def Let_def f)
  next
    assume f: "\<lfloor>y\<rfloor> = k - 1"
    have "real_of_int (k - 1) = real_of_int k - 1" by simp
    then have "1 / 2 < y - real_of_int \<lfloor>y\<rfloor>" unfolding f using assms by linarith
    then show ?thesis by (simp add: round_half_even_def Let_def f)
  qed
qed

lemma scale_eq_round:
  assumes "\<bar>sint raw\<bar> < 2 ^ 53"
  shows "scale raw = f64_round (real_of_int (sint raw) / 100)"
  by (simp add: scale_def f64_of_int_exact [OF assms])

lemma quotient_100_normal:
  assumes n0: "n \<noteq> 0" and nb: "\<bar>n\<bar> < 2 ^ 64"
  defines "x \<equiv> real_of_int n / 100"
  shows "- 1022 \<le> binexp x" and "binexp x < 1023" and "x \<noteq> 0"
proof -
  show x0: "x \<noteq> 0" using n0 by (simp add: x_def)
  note b = binexp_bounds [OF x0]
  have "1 \<le> \<bar>n\<bar>" using n0 by simp
  then have "1 \<le> real_of_int \<bar>n\<bar>" using of_int_le_iff [of 1 "\<bar>n\<bar>", where ?'a = real] by simp
  then have "1 / 100 \<le> \<bar>x\<bar>" by (simp add: x_def)
  moreover have "pow2 (- 7) \<le> 1 / 100" by (simp add: pow2_def)
  ultimately have "pow2 (- 7) < pow2 (binexp x + 1)" using b(2) by linarith
  then have "- 7 < binexp x + 1" by (simp only: pow2_less_iff)
  then show "- 1022 \<le> binexp x" by simp
  have "real_of_int \<bar>n\<bar> < real_of_int (2 ^ 64)" using nb of_int_less_iff by blast
  then have "\<bar>x\<bar> < pow2 64" by (simp add: x_def pow2_def)
  then have "pow2 (binexp x) < pow2 64" using b(1) by linarith
  then have "binexp x < 64" by (simp only: pow2_less_iff)
  then show "binexp x < 1023" by simp
qed

lemma scale_error:
  assumes "\<bar>sint raw\<bar> < 2 ^ 53"
  obtains r where "scale raw = Fin r"
    and "\<bar>r - real_of_int (sint raw) / 100\<bar> \<le> \<bar>real_of_int (sint raw) / 100\<bar> / 2 ^ 53"
proof (cases "sint raw = 0")
  case True
  then have "scale raw = Fin 0" using scale_eq_round [OF assms] by (simp add: f64_round_def)
  then show ?thesis using True by (intro that [of 0]) simp_all
next
  case False
  define x where "x = real_of_int (sint raw) / 100"
  have nb: "\<bar>sint raw\<bar> < 2 ^ 64" using assms by simp
  note q = quotient_100_normal [OF False nb, folded x_def]
  note b = binexp_bounds [OF q(3)]
  obtain r where "f64_round x = Fin r" "\<bar>r - x\<bar> \<le> \<bar>x\<bar> / 2 ^ 53"
    using f64_round_error [OF b(1) b(2) q(1) q(2)] by blast
  then show ?thesis
    using scale_eq_round [OF assms] by (intro that [of r]) (simp_all add: x_def)
qed

subsection \<open>Two decimals of a scaled temperature\<close>

lemma fmt_f2_scale:
  assumes nb: "\<bar>sint raw\<bar> < 2 ^ 52"
  shows "fmt_f2 (scale raw) = two_decimals (sint raw)"
proof -
  define n where "n = sint raw"
  define x where "x = real_of_int n / 100"
  have nb53: "\<bar>sint raw\<bar> < 2 ^ 53" using nb by simp
  obtain r where r: "scale raw = Fin r" and err: "\<bar>r - x\<bar> \<le> \<bar>x\<bar> / 2 ^ 53"
    using scale_error [OF nb53] unfolding x_def n_def by blast
  have "real_of_int \<bar>n\<bar> < real_of_int (2 ^ 52)"
    using nb of_int_less_iff unfolding n_def by blast
  then have nr: "\<bar>real_of_int n\<bar> < 2 ^ 52" by simp
  have x100: "x * 100 = real_of_int n" by (simp add: x_def)
  have "r * 100 - real_of_int n = (r - x) * 100"
    by (simp add: x_def)
  moreover have "\<bar>(r - x) * 100\<bar> = \<bar>r - x\<bar> * 100"
    by (subst abs_mult) simp
  ultimately have "\<bar>r * 100 - real_of_int n\<bar> = \<bar>r - x\<bar> * 100"
    by (simp only:)
  also have "\<dots> \<le> \<bar>x\<bar> / 2 ^ 53 * 100" using err by simp
  also have "\<dots> = \<bar>real_of_int n\<bar> / 2 ^ 53" by (simp add: x_def)
  also have "\<dots> < 1 / 2" using nr by simp
  finally have close: "\<bar>r * 100 - real_of_int n\<bar> < 1 / 2" .
  have "\<bar>\<bar>r\<bar> * 100 - real_of_int \<bar>n\<bar>\<bar> = \<bar>\<bar>r * 100\<bar> - \<bar>real_of_int n\<bar>\<bar>"
    by (simp add: abs_mult)
  also have "\<dots> \<le> \<bar>r * 100 - real_of_int n\<bar>" by (rule abs_triangle_ineq3)
  finally have "\<bar>\<bar>r\<bar> * 100 - real_of_int \<bar>n\<bar>\<bar> < 1 / 2" using close by linarith
  then have rn: "round_half_even (\<bar>r\<bar> * 100) = \<bar>n\<bar>" by (rule round_half_even_unique)
  have "\<bar>x\<bar> / 2 ^ 53 \<le> \<bar>x\<bar> / 2" by (simp add: divide_left_mono)
  then have "\<bar>r - x\<bar> \<le> \<bar>x\<bar> / 2" using err by linarith
  moreover have "x < 0 \<longleftrightarrow> n < 0" by (simp add: x_def)
  moreover have "x = 0 \<longleftrightarrow> n = 0" by (simp add: x_def)
  ultimately have sg: "r < 0 \<longleftrightarrow> n < 0" by (cases "n < 0"; cases "n = 0") (simp, linarith)+
  show ?thesis
    unfolding r two_decimals_def n_def [symmetric]
    by (simp add: rn sg Let_def)
qed

lemma scale_finite:
  obtains r where "scale raw = Fin r"
    and "\<bar>r - real_of_int (sint raw) / 100\<bar> \<le> \<bar>real_of_int (sint raw) / 100\<bar> / 2 ^ 51"
proof (cases "sint raw = 0")
  case True
  then have "scale raw = Fin 0" by (simp add: scale_def f64_of_int_def f64_round_def)
  then show ?thesis using True by (intro that [of 0]) simp_all
next
  case False
  define n where "n = sint raw"
  define z where "z = real_of_int n"
  have n0: "n \<noteq> 0" using False by (simp add: n_def)
  have z0: "z \<noteq> 0" using n0 by (simp add: z_def)
  have "\<bar>n\<bar> \<le> 2 ^ 63"
    using sint_lt [of raw] sint_ge [of raw] by (simp add: n_def)
  then have "real_of_int \<bar>n\<bar> \<le> real_of_int (2 ^ 63)" using of_int_le_iff by blast
  then have zb: "\<bar>z\<bar> \<le> 2 ^ 63" by (simp add: z_def)
  have "1 \<le> \<bar>n\<bar>" using n0 by simp
  then have "real_of_int 1 \<le> real_of_int \<bar>n\<bar>" using of_int_le_iff by blast
  then have z1: "1 \<le> \<bar>z\<bar>" by (simp add: z_def)
  note bz = binexp_bounds [OF z0]
  have p0: "pow2 0 = 1" by (simp add: pow2_def)
  have p64: "pow2 64 = 2 ^ 64" by (simp add: pow2_def)
  have lt64: "(2::real) ^ 63 < 2 ^ 64" by simp
  have "pow2 0 < pow2 (binexp z + 1)" using bz(2) z1 p0 by linarith
  then have "0 < binexp z + 1" by (simp only: pow2_less_iff)
  then have ez1: "- 1022 \<le> binexp z" by simp
  have "pow2 (binexp z) < pow2 64" using bz(1) zb p64 lt64 by linarith
  then have "binexp z < 64" by (simp only: pow2_less_iff)
  then have ez2: "binexp z < 1023" by simp
  obtain a where a: "f64_round z = Fin a" and aerr: "\<bar>a - z\<bar> \<le> \<bar>z\<bar> / 2 ^ 53"
    using f64_round_error [OF bz(1) bz(2) ez1 ez2] by blast
  have half: "\<bar>z\<bar> / 2 ^ 53 \<le> \<bar>z\<bar> / 2" by (simp add: divide_left_mono)
  have alo: "\<bar>z\<bar> / 2 \<le> \<bar>a\<bar>" and ahi: "\<bar>a\<bar> \<le> \<bar>z\<bar> + \<bar>z\<bar> / 2 ^ 53"
    using aerr half by linarith+
  define x where "x = a / 100"
  have "0 < \<bar>a\<bar>" using alo z1 by linarith
  then have a0: "a \<noteq> 0" by auto
  then have x0: "x \<noteq> 0" by (simp add: x_def)
  have xa: "\<bar>x\<bar> = \<bar>a\<bar> / 100" by (simp add: x_def)
  note bx = binexp_bounds [OF x0]
  have "1 / 2 \<le> \<bar>a\<bar>" using alo z1 by linarith
  then have "1 / 200 \<le> \<bar>x\<bar>" unfolding xa by linarith
  moreover have "pow2 (- 8) \<le> 1 / 200" by (simp add: pow2_def)
  ultimately have "pow2 (- 8) < pow2 (binexp x + 1)" using bx(2) by linarith
  then have "- 8 < binexp x + 1" by (simp only: pow2_less_iff)
  then have ex1: "- 1022 \<le> binexp x" by simp
  have a2: "\<bar>a\<bar> \<le> 2 * \<bar>z\<bar>" using ahi half by linarith
  have "(2::real) * 2 ^ 63 = 2 ^ 64" by simp
  then have "\<bar>a\<bar> \<le> 2 ^ 64" using a2 zb by linarith
  then have "\<bar>x\<bar> \<le> 2 ^ 64" unfolding xa by linarith
  then have "\<bar>x\<bar> \<le> pow2 64" using p64 by simp
  then have "pow2 (binexp x) < pow2 65" using bx(1) pow2_less_iff [of 64 65] by linarith
  then have "binexp x < 65" by (simp only: pow2_less_iff)
  then have ex2: "binexp x < 1023" by simp
  obtain r where r: "f64_round x = Fin r" and rerr: "\<bar>r - x\<bar> \<le> \<bar>x\<bar> / 2 ^ 53"
    using f64_round_error [OF bx(1) bx(2) ex1 ex2] by blast
  have "f64_of_int (sint raw) = Fin a"
    unfolding f64_of_int_def n_def [symmetric] z_def [symmetric] by (rule a)
  then have "scale raw = f64_round x" by (simp add: scale_def x_def)
  then have sc: "scale raw = Fin r" by (simp only: r)
  have e1: "\<bar>x - z / 100\<bar> \<le> \<bar>z / 100\<bar> / 2 ^ 53"
  proof -
    have "\<bar>x - z / 100\<bar> = \<bar>a - z\<bar> / 100"
      by (simp add: x_def diff_divide_distrib [symmetric])
    also have "\<dots> \<le> \<bar>z\<bar> / 2 ^ 53 / 100" using aerr by (simp add: divide_right_mono)
    finally show ?thesis by simp
  qed
  have e2: "\<bar>x\<bar> \<le> 2 * \<bar>z / 100\<bar>"
    using a2 unfolding xa by simp
  have "\<bar>r - z / 100\<bar> \<le> \<bar>r - x\<bar> + \<bar>x - z / 100\<bar>" by linarith
  also have "\<dots> \<le> 2 * \<bar>z / 100\<bar> / 2 ^ 53 + \<bar>z / 100\<bar> / 2 ^ 53"
  proof -
    have "\<bar>x\<bar> / 2 ^ 53 \<le> 2 * \<bar>z / 100\<bar> / 2 ^ 53"
      using e2 by (simp add: divide_right_mono)
    then show ?thesis using rerr e1 by linarith
  qed
  also have "\<dots> \<le> \<bar>z / 100\<bar> / 2 ^ 51" by simp
  finally have "\<bar>r - z / 100\<bar> \<le> \<bar>z / 100\<bar> / 2 ^ 51" .
  then show ?thesis using sc by (intro that [of r]) (simp_all add: z_def n_def)
qed

section \<open>The paths through \<open>executeCheck\<close>\<close>

lemma f64_ge_blocks_warning:
  "f64_ge w c \<Longrightarrow> \<not> f64_gt e c \<Longrightarrow> \<not> f64_gt e w"
  by (cases e; cases w; cases c) auto

lemma report_outcome:
  "fst (report plugin e t w) =
     Returned (if f64_gt e (Critical plugin) then CheckStateCritical
               else if f64_gt e (Warning plugin) then CheckStateWarning
               else CheckStateOK) None"
  by (simp add: report_def)

lemma report_world:
  "snd (report plugin e t w) =
     printf (Name plugin @
       severity_label (if f64_gt e (Critical plugin) then CheckStateCritical
               else if f64_gt e (Warning plugin) then CheckStateWarning
               else CheckStateOK) @ t) w"
  by (simp add: report_def)

lemma executeCheck_connect_failed:
  "connect_err dev = Some err \<Longrightarrow>
   executeCheck plugin dev w =
     (Returned CheckStateCritical None,
      printf (Name plugin @ '' CRITICAL: failed to connect to tempager.'' @ nl)
        (called CallConnect (configure plugin w)))"
  by (simp add: executeCheck_def)

lemma executeCheck_connected:
  "connect_err dev = None \<Longrightarrow>
   executeCheck plugin dev w =
     (fst (gather plugin dev (set_conn ConnOpen (called CallConnect (configure plugin w)))),
      set_conn ConnClosed (called CallClose
        (snd (gather plugin dev (set_conn ConnOpen (called CallConnect (configure plugin w)))))))"
  by (simp add: executeCheck_def Let_def split: prod.splits)

lemma gather_failed:
  "get_result dev = Inl err \<Longrightarrow>
   gather plugin dev w =
     (Returned CheckStateCritical None,
      printf (Name plugin @ '' CRITICAL: failed to gather oids.'' @ nl) (called (CallGet oids) w))"
  by (simp add: gather_def)

lemma gather_answered:
  "get_result dev = Inr result \<Longrightarrow>
   gather plugin dev w = interpret_result plugin result (called (CallGet oids) w)"
  by (simp add: gather_def)

lemma interpret_result_calls: "calls (snd (interpret_result plugin result w)) = calls w"
  by (simp add: interpret_result_def Let_def report_def printf_def split: option.splits)

lemma gather_calls: "calls (snd (gather plugin dev w)) = calls w @ [CallGet oids]"
  by (cases "get_result dev")
     (simp_all add: gather_def interpret_result_calls printf_def called_def)

lemma interpret_result_location:
  "assert_bytes v0 = None \<Longrightarrow>
   interpret_result plugin \<lparr>Variables = pdu v0 # rest\<rparr> w =
     (Returned CheckStateCritical None,
      printf (Name plugin @ '' CRITICAL: failed to read location.'' @ nl) w)"
  by (simp add: interpret_result_def pdu_def)

lemma interpret_result_internal:
  "assert_bytes v0 = Some l \<Longrightarrow> assert_int v1 = None \<Longrightarrow>
   interpret_result plugin \<lparr>Variables = pdu v0 # pdu v1 # rest\<rparr> w =
     (Returned CheckStateCritical None,
      printf (Name plugin @ '' CRITICAL: failed to read internal temperature.'' @ nl) w)"
  by (simp add: interpret_result_def pdu_def)

lemma interpret_result_external:
  "assert_bytes v0 = Some l \<Longrightarrow> assert_int v1 = Some i \<Longrightarrow> assert_int v2 = None \<Longrightarrow>
   interpret_result plugin \<lparr>Variables = pdu v0 # pdu v1 # pdu v2 # rest\<rparr> w =
     (Returned CheckStateCritical None,
      printf (Name plugin @ '' CRITICAL: failed to read external temperature.'' @ nl) w)"
  by (simp add: interpret_result_def pdu_def)

lemma interpret_result_accepted:
  "assert_bytes v0 = Some l \<Longrightarrow> assert_int v1 = Some i \<Longrightarrow> assert_int v2 = Some e \<Longrightarrow>
   interpret_result plugin \<lparr>Variables = pdu v0 # pdu v1 # pdu v2 # rest\<rparr> w =
     report plugin (scale e) (status_line l (scale e) (perfData (scale i) (scale e))) w"
  by (simp add: interpret_result_def pdu_def Let_def)

lemma executeCheck_reading:
  "executeCheck plugin (reading l i e) w =
     (fst (report plugin (scale e) (status_line l (scale e) (perfData (scale i) (scale e)))
             (called (CallGet oids) (set_conn ConnOpen (called CallConnect (configure plugin w))))),
      set_conn ConnClosed (called CallClose
        (snd (report plugin (scale e) (status_line l (scale e) (perfData (scale i) (scale e)))
             (called (CallGet oids) (set_conn ConnOpen (called CallConnect (configure plugin w))))))))"
  by (simp add: executeCheck_connected reading_def answers_def gather_answered
      interpret_result_accepted)

lemma executeCheck_reading_outcome:
  "fst (executeCheck plugin (reading l i e) w) =
     Returned (if f64_gt (scale e) (Critical plugin) then CheckStateCritical
               else if f64_gt (scale e) (Warning plugin) then CheckStateWarning
               else CheckStateOK) None"
  by (simp only: executeCheck_reading fst_conv report_outcome)

lemma executeCheck_reading_stdout:
  "stdout (snd (executeCheck plugin (reading l i e) w)) =
     stdout w @ Name plugin @
     severity_label (if f64_gt (scale e) (Critical plugin) then CheckStateCritical
               else if f64_gt (scale e) (Warning plugin) then CheckStateWarning
               else CheckStateOK) @
     l @ '' temperature is '' @ fmt_f2 (scale e) @ ''c | tempager_internal='' @
     fmt_f2 (scale i) @ '', tempager_external='' @ fmt_f2 (scale e) @ nl"
  by (simp add: executeCheck_reading report_world printf_def called_def set_conn_def
      configure_def status_line_def perfData_def)

lemma scale_multiple_of_100:
  assumes "sint raw = 100 * k" and "\<bar>k\<bar> < 2 ^ 46"
  shows "scale raw = Fin (real_of_int k)"
proof -
  have b: "\<bar>sint raw\<bar> < 2 ^ 53" using assms by simp
  have k: "\<bar>k\<bar> < 2 ^ 53" using assms(2) by simp
  have "scale raw = f64_round (real_of_int k)"
    by (simp add: scale_eq_round [OF b] assms(1))
  then show ?thesis using f64_of_int_exact [OF k] by (simp add: f64_of_int_def)
qed

lemma scale_4000: "scale 4000 = Fin 40"
  using scale_multiple_of_100 [of 4000 40] by simp

lemma scale_3500: "scale 3500 = Fin 35"
  using scale_multiple_of_100 [of 3500 35] by simp

lemma stdout_printf: "stdout (printf s w) = stdout w @ s"
  by (simp add: printf_def)

lemma stdout_after_connect [simp]:
  "stdout (set_conn c w) = stdout w" "stdout (called k w) = stdout w"
  "stdout (configure plugin w) = stdout w"
  by (simp_all add: set_conn_def called_def configure_def)

lemma calls_simps [simp]:
  "calls (set_conn c w) = calls w" "calls (called k w) = calls w @ [k]"
  "calls (configure plugin w) = calls w" "calls (printf s w) = calls w"
  by (simp_all add: set_conn_def called_def configure_def printf_def)

lemma Conn_simps [simp]:
  "Conn (Default (set_conn c w)) = c" "Conn (Default (called k w)) = Conn (Default w)"
  "Conn (Default (configure plugin w)) = Conn (Default w)"
  "Conn (Default (printf s w)) = Conn (Default w)"
  by (simp_all add: set_conn_def called_def configure_def printf_def)

lemma executeCheck_answers:
  "executeCheck plugin (answers vs) w =
     (fst (interpret_result plugin \<lparr>Variables = vs\<rparr>
         (called (CallGet oids) (set_conn ConnOpen (called CallConnect (configure plugin w))))),
      set_conn ConnClosed (called CallClose
        (snd (interpret_result plugin \<lparr>Variables = vs\<rparr>
         (called (CallGet oids) (set_conn ConnOpen (called CallConnect (configure plugin w))))))))"
  by (simp add: executeCheck_connected answers_def gather_answered)

lemma scale_3567: "scale 3567 = Fin (2510053104817275 / 2 ^ 46)"
proof -
  have b: "\<bar>sint (3567 :: 64 word)\<bar> < 2 ^ 53" by simp
  have lo: "pow2 5 \<le> \<bar>3567 / 100 :: real\<bar>" by (simp add: pow2_def)
  have hi: "\<bar>3567 / 100 :: real\<bar> < pow2 (5 + 1)" by (simp add: pow2_def)
  have p: "pow2 (5 - 52) = 1 / 2 ^ 47" by (simp add: pow2_def)
  have "\<bar>3567 / 100 / pow2 (5 - 52) - real_of_int 5020106209634550\<bar> < 1 / 2"
    unfolding p by simp
  then have r: "round_half_even (3567 / 100 / pow2 (5 - 52)) = 5020106209634550"
    by (rule round_half_even_unique)
  have "f64_round (3567 / 100) =
      Fin (real_of_int (round_half_even (3567 / 100 / pow2 (5 - 52))) * pow2 (5 - 52))"
    by (rule f64_round_normal [OF lo hi]) simp_all
  then have "f64_round (3567 / 100) = Fin (real_of_int 5020106209634550 * pow2 (5 - 52))"
    by (simp only: r)
  then have "f64_round (3567 / 100) = Fin (2510053104817275 / 2 ^ 46)"
    unfolding p by simp
  then show ?thesis using scale_eq_round [OF b] by simp
qed

lemma scale_3620_gt_35: "f64_gt (scale 3620) (Fin 35)" and scale_3620_not_gt_40: "\<not> f64_gt (scale 3620) (Fin 40)"
proof -
  have b: "\<bar>sint (3620 :: 64 word)\<bar> < 2 ^ 53" by simp
  obtain r where r: "scale 3620 = Fin r"
    and e: "\<bar>r - real_of_int (sint (3620 :: 64 word)) / 100\<bar>
            \<le> \<bar>real_of_int (sint (3620 :: 64 word)) / 100\<bar> / 2 ^ 53"
    using scale_error [OF b] by blast
  have "\<bar>real_of_int (sint (3620 :: 64 word)) / 100\<bar> / 2 ^ 53 \<le> (1 :: real)" by simp
  then have "\<bar>r - 3620 / 100\<bar> \<le> 1" using e by simp
  then have "35 < r" "\<not> 40 < r" by linarith+
  then show "f64_gt (scale 3620) (Fin 35)" and "\<not> f64_gt (scale 3620) (Fin 40)"
    by (simp_all add: r)
qed

lemma interpret_result_panics:
  "(\<exists>k n. fst (interpret_result plugin \<lparr>Variables = vs\<rparr> w) = IndexOutOfRange k n)
     \<longleftrightarrow> (length vs < 3 \<and> typed_prefix vs)"
proof (cases vs)
  case Nil
  then show ?thesis by (simp add: interpret_result_def)
next
  case (Cons a as)
  note c1 = this
  show ?thesis
  proof (cases as)
    case Nil
    then show ?thesis using c1
      by (auto simp: interpret_result_def Let_def split: option.splits)
  next
    case (Cons b bs)
    note c2 = this
    show ?thesis
    proof (cases bs)
      case Nil
      then show ?thesis using c1 c2
        by (auto simp: interpret_result_def Let_def split: option.splits)
    next
      case (Cons c cs)
      then show ?thesis using c1 c2
        by (auto simp: interpret_result_def Let_def report_def split: option.splits)
    qed
  qed
qed

section \<open>The claims\<close>

text \<open>
  C1. For every external temperature and every pair of thresholds the state is chosen by
  the first comparison that succeeds, both comparisons strict: critical when the
  temperature is greater than the critical threshold, otherwise warning when it is greater
  than the warning threshold, otherwise OK. This holds of the float64 comparison for all
  values, of finite values as an order on the reals, and of a whole run on a successful
  read. With thresholds 35.0 and 40.0 a temperature of exactly 40.0 (raw 4000) gives
  WARNING and one of exactly 35.0 (raw 3500) gives OK.
\<close>

theorem severity_first_match_strict:
  "fst (report plugin e t w) =
     Returned (if f64_gt e (Critical plugin) then CheckStateCritical
               else if f64_gt e (Warning plugin) then CheckStateWarning
               else CheckStateOK) None
   \<and> fst (report (plugin\<lparr>Warning := Fin wt, Critical := Fin ct\<rparr>) (Fin x) t w) =
     Returned (if ct < x then CheckStateCritical
               else if wt < x then CheckStateWarning
               else CheckStateOK) None
   \<and> fst (executeCheck plugin (reading l i raw) w) =
     Returned (if f64_gt (scale raw) (Critical plugin) then CheckStateCritical
               else if f64_gt (scale raw) (Warning plugin) then CheckStateWarning
               else CheckStateOK) None
   \<and> fst (report (plugin\<lparr>Warning := Fin 35, Critical := Fin 40\<rparr>) (Fin 40) t w) =
     Returned CheckStateWarning None
   \<and> fst (report (plugin\<lparr>Warning := Fin 35, Critical := Fin 40\<rparr>) (Fin 35) t w) =
     Returned CheckStateOK None
   \<and> fst (executeCheck (plugin\<lparr>Warning := Fin 35, Critical := Fin 40\<rparr>) (reading l i 4000) w) =
     Returned CheckStateWarning None
   \<and> fst (executeCheck (plugin\<lparr>Warning := Fin 35, Critical := Fin 40\<rparr>) (reading l i 3500) w) =
     Returned CheckStateOK None"
  by (simp add: report_outcome executeCheck_reading_outcome scale_4000 scale_3500)

text \<open>
  C2. \<open>checkArgs\<close> returns the missing-target error exactly when the target is empty,
  the invalid-target error exactly when the target is not empty and \<open>net.ParseIP\<close>
  rejects it, and OK with no error exactly when the target is not empty and
  \<open>net.ParseIP\<close> accepts it; it is critical exactly when it returns an error; and it
  leaves the world as it found it.
\<close>

theorem checkArgs_validation:
  "((snd (fst (checkArgs parseIP plugin w)) = Some ''target unit must be specified.'')
      \<longleftrightarrow> Target plugin = '''')
   \<and> ((snd (fst (checkArgs parseIP plugin w)) = Some ''target must be an IP address.'')
      \<longleftrightarrow> (Target plugin \<noteq> '''' \<and> parseIP (Target plugin) = None))
   \<and> ((fst (checkArgs parseIP plugin w) = (CheckStateOK, None))
      \<longleftrightarrow> (Target plugin \<noteq> '''' \<and> parseIP (Target plugin) \<noteq> None))
   \<and> ((fst (fst (checkArgs parseIP plugin w)) = CheckStateCritical)
      \<longleftrightarrow> (snd (fst (checkArgs parseIP plugin w)) \<noteq> None))
   \<and> snd (checkArgs parseIP plugin w) = w"
  by (simp add: checkArgs_def)

text \<open>
  C3. Every error path is critical, prints (or, for \<open>checkArgs\<close>, returns) its own
  short message and is not retried: on an empty target \<open>checkArgs\<close> returns the
  critical state with the missing-target message, on a target that is not empty and
  that \<open>net.ParseIP\<close> rejects it returns the critical state with the invalid-target
  message, and whenever it returns an error the state is critical and the error is one
  of these two messages; a failed \<open>Connect\<close> prints the connection
  message after exactly one \<open>Connect\<close>; a failed \<open>Get\<close> and each of the three failed
  type assertions print their message after exactly one \<open>Connect\<close>, one \<open>Get\<close> and
  the \<open>Close\<close>.
\<close>

theorem error_paths_critical:
  "(Target plugin = '''' \<longrightarrow>
      fst (checkArgs parseIP plugin w) =
        (CheckStateCritical, Some ''target unit must be specified.''))
   \<and> (Target plugin \<noteq> '''' \<and> parseIP (Target plugin) = None \<longrightarrow>
      fst (checkArgs parseIP plugin w) =
        (CheckStateCritical, Some ''target must be an IP address.''))
   \<and> (snd (fst (checkArgs parseIP plugin w)) \<noteq> None \<longrightarrow>
      fst (fst (checkArgs parseIP plugin w)) = CheckStateCritical
      \<and> snd (fst (checkArgs parseIP plugin w))
          \<in> {Some ''target unit must be specified.'', Some ''target must be an IP address.''})
   \<and> (connect_err dev = Some err \<longrightarrow>
      fst (executeCheck plugin dev w) = Returned CheckStateCritical None
      \<and> stdout (snd (executeCheck plugin dev w)) =
          stdout w @ Name plugin @ '' CRITICAL: failed to connect to tempager.'' @ nl
      \<and> calls (snd (executeCheck plugin dev w)) = calls w @ [CallConnect])
   \<and> (connect_err dev = None \<and> get_result dev = Inl err \<longrightarrow>
      fst (executeCheck plugin dev w) = Returned CheckStateCritical None
      \<and> stdout (snd (executeCheck plugin dev w)) =
          stdout w @ Name plugin @ '' CRITICAL: failed to gather oids.'' @ nl
      \<and> calls (snd (executeCheck plugin dev w)) = calls w @ [CallConnect, CallGet oids, CallClose])
   \<and> (assert_bytes v0 = None \<longrightarrow>
      fst (executeCheck plugin (answers (pdu v0 # rest)) w) = Returned CheckStateCritical None
      \<and> stdout (snd (executeCheck plugin (answers (pdu v0 # rest)) w)) =
          stdout w @ Name plugin @ '' CRITICAL: failed to read location.'' @ nl
      \<and> calls (snd (executeCheck plugin (answers (pdu v0 # rest)) w)) =
          calls w @ [CallConnect, CallGet oids, CallClose])
   \<and> (assert_bytes v0 \<noteq> None \<and> assert_int v1 = None \<longrightarrow>
      fst (executeCheck plugin (answers (pdu v0 # pdu v1 # rest)) w) =
          Returned CheckStateCritical None
      \<and> stdout (snd (executeCheck plugin (answers (pdu v0 # pdu v1 # rest)) w)) =
          stdout w @ Name plugin @ '' CRITICAL: failed to read internal temperature.'' @ nl
      \<and> calls (snd (executeCheck plugin (answers (pdu v0 # pdu v1 # rest)) w)) =
          calls w @ [CallConnect, CallGet oids, CallClose])
   \<and> (assert_bytes v0 \<noteq> None \<and> assert_int v1 \<noteq> None \<and> assert_int v2 = None \<longrightarrow>
      fst (executeCheck plugin (answers (pdu v0 # pdu v1 # pdu v2 # rest)) w) =
          Returned CheckStateCritical None
      \<and> stdout (snd (executeCheck plugin (answers (pdu v0 # pdu v1 # pdu v2 # rest)) w)) =
          stdout w @ Name plugin @ '' CRITICAL: failed to read external temperature.'' @ nl
      \<and> calls (snd (executeCheck plugin (answers (pdu v0 # pdu v1 # pdu v2 # rest)) w)) =
          calls w @ [CallConnect, CallGet oids, CallClose])"
proof (intro conjI impI)
  assume "Target plugin = ''''"
  then show "fst (checkArgs parseIP plugin w) =
        (CheckStateCritical, Some ''target unit must be specified.'')"
    by (simp add: checkArgs_def)
next
  assume "Target plugin \<noteq> '''' \<and> parseIP (Target plugin) = None"
  then show "fst (checkArgs parseIP plugin w) =
        (CheckStateCritical, Some ''target must be an IP address.'')"
    by (simp add: checkArgs_def)
next
  assume "snd (fst (checkArgs parseIP plugin w)) \<noteq> None"
  then show "fst (fst (checkArgs parseIP plugin w)) = CheckStateCritical"
    and "snd (fst (checkArgs parseIP plugin w))
          \<in> {Some ''target unit must be specified.'', Some ''target must be an IP address.''}"
    by (simp_all add: checkArgs_def split: if_splits)
next
  assume c: "connect_err dev = Some err"
  show "fst (executeCheck plugin dev w) = Returned CheckStateCritical None"
    and "stdout (snd (executeCheck plugin dev w)) =
          stdout w @ Name plugin @ '' CRITICAL: failed to connect to tempager.'' @ nl"
    and "calls (snd (executeCheck plugin dev w)) = calls w @ [CallConnect]"
    by (simp_all add: executeCheck_connect_failed [OF c] stdout_printf)
next
  assume "connect_err dev = None \<and> get_result dev = Inl err"
  then have c: "connect_err dev = None" and g: "get_result dev = Inl err" by simp_all
  show "fst (executeCheck plugin dev w) = Returned CheckStateCritical None"
    and "stdout (snd (executeCheck plugin dev w)) =
          stdout w @ Name plugin @ '' CRITICAL: failed to gather oids.'' @ nl"
    and "calls (snd (executeCheck plugin dev w)) = calls w @ [CallConnect, CallGet oids, CallClose]"
    by (simp_all add: executeCheck_connected [OF c] gather_failed [OF g] stdout_printf)
next
  assume a: "assert_bytes v0 = None"
  show "fst (executeCheck plugin (answers (pdu v0 # rest)) w) = Returned CheckStateCritical None"
    and "stdout (snd (executeCheck plugin (answers (pdu v0 # rest)) w)) =
          stdout w @ Name plugin @ '' CRITICAL: failed to read location.'' @ nl"
    and "calls (snd (executeCheck plugin (answers (pdu v0 # rest)) w)) =
          calls w @ [CallConnect, CallGet oids, CallClose]"
    by (simp_all add: executeCheck_answers interpret_result_location [OF a] stdout_printf)
next
  assume "assert_bytes v0 \<noteq> None \<and> assert_int v1 = None"
  then obtain l where a: "assert_bytes v0 = Some l" and b: "assert_int v1 = None" by auto
  show "fst (executeCheck plugin (answers (pdu v0 # pdu v1 # rest)) w) =
          Returned CheckStateCritical None"
    and "stdout (snd (executeCheck plugin (answers (pdu v0 # pdu v1 # rest)) w)) =
          stdout w @ Name plugin @ '' CRITICAL: failed to read internal temperature.'' @ nl"
    and "calls (snd (executeCheck plugin (answers (pdu v0 # pdu v1 # rest)) w)) =
          calls w @ [CallConnect, CallGet oids, CallClose]"
    by (simp_all add: executeCheck_answers interpret_result_internal [OF a b] stdout_printf)
next
  assume "assert_bytes v0 \<noteq> None \<and> assert_int v1 \<noteq> None \<and> assert_int v2 = None"
  then obtain l i where a: "assert_bytes v0 = Some l" and b: "assert_int v1 = Some i"
    and c: "assert_int v2 = None" by auto
  show "fst (executeCheck plugin (answers (pdu v0 # pdu v1 # pdu v2 # rest)) w) =
          Returned CheckStateCritical None"
    and "stdout (snd (executeCheck plugin (answers (pdu v0 # pdu v1 # pdu v2 # rest)) w)) =
          stdout w @ Name plugin @ '' CRITICAL: failed to read external temperature.'' @ nl"
    and "calls (snd (executeCheck plugin (answers (pdu v0 # pdu v1 # pdu v2 # rest)) w)) =
          calls w @ [CallConnect, CallGet oids, CallClose]"
    by (simp_all add: executeCheck_answers interpret_result_external [OF a b c] stdout_printf)
qed

text \<open>
  The error paths of C3 on concrete inputs: an empty target, a host name as target
  (with a parser that rejects it), a connection that times out, a \<open>Get\<close> that times
  out, and nil in each of the three positions.
\<close>

theorem error_paths_critical_witness:
  "fst (checkArgs (\<lambda>s. None :: unit option) (scenario_plugin\<lparr>Target := ''''\<rparr>) world0) =
       (CheckStateCritical, Some ''target unit must be specified.'')
   \<and> fst (checkArgs (\<lambda>s. None :: unit option)
        (scenario_plugin\<lparr>Target := ''tempager.example''\<rparr>) world0) =
       (CheckStateCritical, Some ''target must be an IP address.'')
   \<and> fst (executeCheck scenario_plugin
          \<lparr>connect_err = Some ''timeout'', get_result = Inl ''timeout''\<rparr> world0) =
       Returned CheckStateCritical None
   \<and> stdout (snd (executeCheck scenario_plugin
          \<lparr>connect_err = Some ''timeout'', get_result = Inl ''timeout''\<rparr> world0)) =
       ''check-tempager-3e-temperature CRITICAL: failed to connect to tempager.'' @ nl
   \<and> calls (snd (executeCheck scenario_plugin
          \<lparr>connect_err = Some ''timeout'', get_result = Inl ''timeout''\<rparr> world0)) =
       [CallConnect]
   \<and> stdout (snd (executeCheck scenario_plugin
          \<lparr>connect_err = None, get_result = Inl ''timeout''\<rparr> world0)) =
       ''check-tempager-3e-temperature CRITICAL: failed to gather oids.'' @ nl
   \<and> calls (snd (executeCheck scenario_plugin
          \<lparr>connect_err = None, get_result = Inl ''timeout''\<rparr> world0)) =
       [CallConnect, CallGet oids, CallClose]
   \<and> stdout (snd (executeCheck scenario_plugin (answers [pdu GoNil, pdu GoNil, pdu GoNil]) world0)) =
       ''check-tempager-3e-temperature CRITICAL: failed to read location.'' @ nl
   \<and> stdout (snd (executeCheck scenario_plugin
          (answers [pdu (GoBytes ''Server Room''), pdu GoNil, pdu GoNil]) world0)) =
       ''check-tempager-3e-temperature CRITICAL: failed to read internal temperature.'' @ nl
   \<and> stdout (snd (executeCheck scenario_plugin
          (answers [pdu (GoBytes ''Server Room''), pdu (GoInt 2850), pdu GoNil]) world0)) =
       ''check-tempager-3e-temperature CRITICAL: failed to read external temperature.'' @ nl"
proof -
  define D1 where "D1 = \<lparr>connect_err = Some ''timeout'', get_result = Inl ''timeout''\<rparr>"
  define D2 where "D2 = \<lparr>connect_err = None, get_result = Inl ''timeout''\<rparr>"
  note a = error_paths_critical
    [where parseIP = "\<lambda>s. None :: unit option"
       and plugin = "scenario_plugin\<lparr>Target := ''tempager.example''\<rparr>" and w = world0]
  note b = error_paths_critical
    [where plugin = scenario_plugin and w = world0 and dev = D1 and err = "''timeout''"]
  note c = error_paths_critical
    [where plugin = scenario_plugin and w = world0 and dev = D2 and err = "''timeout''"]
  note d = error_paths_critical
    [where plugin = scenario_plugin and w = world0
       and ?v0.0 = GoNil and rest = "[pdu GoNil, pdu GoNil]"]
  note e = error_paths_critical
    [where plugin = scenario_plugin and w = world0
       and ?v0.0 = "GoBytes ''Server Room''" and ?v1.0 = GoNil and rest = "[pdu GoNil]"]
  note f = error_paths_critical
    [where plugin = scenario_plugin and w = world0
       and ?v0.0 = "GoBytes ''Server Room''" and ?v1.0 = "GoInt 2850" and ?v2.0 = GoNil
       and rest = "[]"]
  note a0 = error_paths_critical
    [where parseIP = "\<lambda>s. None :: unit option"
       and plugin = "scenario_plugin\<lparr>Target := ''''\<rparr>" and w = world0]
  have "Target (scenario_plugin\<lparr>Target := ''''\<rparr>) = ''''" by simp
  with a0 have 0: "fst (checkArgs (\<lambda>s. None :: unit option)
      (scenario_plugin\<lparr>Target := ''''\<rparr>) world0) =
       (CheckStateCritical, Some ''target unit must be specified.'')"
    by blast
  have "Target (scenario_plugin\<lparr>Target := ''tempager.example''\<rparr>) \<noteq> ''''
      \<and> (\<lambda>s. None :: unit option) (Target (scenario_plugin\<lparr>Target := ''tempager.example''\<rparr>))
          = None"
    by simp
  with a have 1: "fst (checkArgs (\<lambda>s. None :: unit option)
      (scenario_plugin\<lparr>Target := ''tempager.example''\<rparr>) world0) =
       (CheckStateCritical, Some ''target must be an IP address.'')"
    by blast
  have "connect_err D1 = Some ''timeout''" by (simp add: D1_def)
  with b
  have "fst (executeCheck scenario_plugin D1 world0) = Returned CheckStateCritical None
      \<and> stdout (snd (executeCheck scenario_plugin D1 world0)) =
          stdout world0 @ Name scenario_plugin @ '' CRITICAL: failed to connect to tempager.'' @ nl
      \<and> calls (snd (executeCheck scenario_plugin D1 world0)) = calls world0 @ [CallConnect]"
    by blast
  then have 2: "fst (executeCheck scenario_plugin D1 world0) = Returned CheckStateCritical None"
    "stdout (snd (executeCheck scenario_plugin D1 world0)) =
       ''check-tempager-3e-temperature CRITICAL: failed to connect to tempager.'' @ nl"
    "calls (snd (executeCheck scenario_plugin D1 world0)) = [CallConnect]"
    by (simp_all add: scenario_plugin_def world0_def)
  have "connect_err D2 = None \<and> get_result D2 = Inl ''timeout''" by (simp add: D2_def)
  with c
  have "fst (executeCheck scenario_plugin D2 world0) = Returned CheckStateCritical None
      \<and> stdout (snd (executeCheck scenario_plugin D2 world0)) =
          stdout world0 @ Name scenario_plugin @ '' CRITICAL: failed to gather oids.'' @ nl
      \<and> calls (snd (executeCheck scenario_plugin D2 world0)) =
          calls world0 @ [CallConnect, CallGet oids, CallClose]"
    by blast
  then have 3: "stdout (snd (executeCheck scenario_plugin D2 world0)) =
       ''check-tempager-3e-temperature CRITICAL: failed to gather oids.'' @ nl"
    "calls (snd (executeCheck scenario_plugin D2 world0)) = [CallConnect, CallGet oids, CallClose]"
    by (simp_all add: scenario_plugin_def world0_def)
  have "assert_bytes GoNil = None" by simp
  with d
  have "stdout (snd (executeCheck scenario_plugin
          (answers (pdu GoNil # [pdu GoNil, pdu GoNil])) world0)) =
          stdout world0 @ Name scenario_plugin @ '' CRITICAL: failed to read location.'' @ nl"
    by blast
  then have 4: "stdout (snd (executeCheck scenario_plugin
          (answers [pdu GoNil, pdu GoNil, pdu GoNil]) world0)) =
       ''check-tempager-3e-temperature CRITICAL: failed to read location.'' @ nl"
    by (simp add: scenario_plugin_def world0_def)
  have "assert_bytes (GoBytes ''Server Room'') \<noteq> None \<and> assert_int GoNil = None" by simp
  with e
  have "stdout (snd (executeCheck scenario_plugin
          (answers (pdu (GoBytes ''Server Room'') # pdu GoNil # [pdu GoNil])) world0)) =
          stdout world0 @ Name scenario_plugin @
          '' CRITICAL: failed to read internal temperature.'' @ nl"
    by blast
  then have 5: "stdout (snd (executeCheck scenario_plugin
          (answers [pdu (GoBytes ''Server Room''), pdu GoNil, pdu GoNil]) world0)) =
       ''check-tempager-3e-temperature CRITICAL: failed to read internal temperature.'' @ nl"
    by (simp add: scenario_plugin_def world0_def)
  have "assert_bytes (GoBytes ''Server Room'') \<noteq> None \<and> assert_int (GoInt 2850) \<noteq> None
      \<and> assert_int GoNil = None" by simp
  with f
  have "stdout (snd (executeCheck scenario_plugin
          (answers (pdu (GoBytes ''Server Room'') # pdu (GoInt 2850) # pdu GoNil # [])) world0)) =
          stdout world0 @ Name scenario_plugin @
          '' CRITICAL: failed to read external temperature.'' @ nl"
    by blast
  then have 6: "stdout (snd (executeCheck scenario_plugin
          (answers [pdu (GoBytes ''Server Room''), pdu (GoInt 2850), pdu GoNil]) world0)) =
       ''check-tempager-3e-temperature CRITICAL: failed to read external temperature.'' @ nl"
    by (simp add: scenario_plugin_def world0_def)
  from 0 1 2 3 4 5 6 show ?thesis unfolding D1_def D2_def by (intro conjI)
qed

text \<open>
  C4. Both raw readings are scaled by the float64 division by 100 of the converted
  integer, and that is the value printed and compared. For every 64-bit reading the
  result is finite and within a relative error of \<open>2^-51\<close> of the exact quotient; for a
  reading below \<open>2^53\<close> in magnitude the conversion is exact and the result is the
  float64 nearest to the exact quotient (relative error at most \<open>2^-53\<close>), which is
  the quotient itself for a whole number of degrees. Raw 3567
  scales to the float64 nearest to 35.67, which is \<open>2510053104817275 / 2^46\<close> and prints
  as 35.67.
\<close>

theorem scaling_divides_by_100:
  "scale raw = f64_div (f64_of_int (sint raw)) 100
   \<and> interpret_result plugin \<lparr>Variables = [pdu (GoBytes l), pdu (GoInt i), pdu (GoInt e)]\<rparr> w =
       report plugin (scale e) (status_line l (scale e) (perfData (scale i) (scale e))) w
   \<and> (\<exists>r. scale raw = Fin r
          \<and> \<bar>r - real_of_int (sint raw) / 100\<bar> \<le> \<bar>real_of_int (sint raw) / 100\<bar> / 2 ^ 51)
   \<and> (\<bar>sint raw\<bar> < 2 ^ 53 \<longrightarrow>
         scale raw = f64_round (real_of_int (sint raw) / 100)
         \<and> (\<exists>r. scale raw = Fin r
              \<and> \<bar>r - real_of_int (sint raw) / 100\<bar> \<le> \<bar>real_of_int (sint raw) / 100\<bar> / 2 ^ 53))
   \<and> (sint raw = 100 * k \<and> \<bar>k\<bar> < 2 ^ 46 \<longrightarrow> scale raw = Fin (real_of_int k))
   \<and> scale 3567 = f64_round (3567 / 100)
   \<and> scale 3567 = Fin (2510053104817275 / 2 ^ 46)
   \<and> fmt_f2 (scale 3567) = ''35.67''"
proof (intro conjI impI)
  show "scale raw = f64_div (f64_of_int (sint raw)) 100" by (simp add: scale_def)
  show "interpret_result plugin \<lparr>Variables = [pdu (GoBytes l), pdu (GoInt i), pdu (GoInt e)]\<rparr> w =
       report plugin (scale e) (status_line l (scale e) (perfData (scale i) (scale e))) w"
    by (simp add: interpret_result_accepted)
  show "\<exists>r. scale raw = Fin r
          \<and> \<bar>r - real_of_int (sint raw) / 100\<bar> \<le> \<bar>real_of_int (sint raw) / 100\<bar> / 2 ^ 51"
    using scale_finite [of raw] by blast
  show "scale 3567 = f64_round (3567 / 100)"
    using scale_eq_round [of 3567] by simp
  show "scale 3567 = Fin (2510053104817275 / 2 ^ 46)" by (rule scale_3567)
  show "fmt_f2 (scale 3567) = ''35.67''"
    using fmt_f2_scale [of 3567] by (simp add: two_decimals_def dec.simps digit_def)
next
  assume b: "\<bar>sint raw\<bar> < 2 ^ 53"
  show "scale raw = f64_round (real_of_int (sint raw) / 100)" by (rule scale_eq_round [OF b])
  show "\<exists>r. scale raw = Fin r
          \<and> \<bar>r - real_of_int (sint raw) / 100\<bar> \<le> \<bar>real_of_int (sint raw) / 100\<bar> / 2 ^ 53"
    using scale_error [OF b] by blast
next
  assume "sint raw = 100 * k \<and> \<bar>k\<bar> < 2 ^ 46"
  then show "scale raw = Fin (real_of_int k)"
    using scale_multiple_of_100 [of raw k] by blast
qed

text \<open>
  C4 at raw 2850, which is below \<open>2^53\<close>: the quotient 28.5 is a binary fraction and the
  scaled value is exactly that.
\<close>

theorem scaling_divides_by_100_witness:
  "\<bar>sint (2850 :: 64 word)\<bar> < 2 ^ 53
   \<and> scale 2850 = f64_round (2850 / 100)
   \<and> scale 2850 = Fin (57 / 2)"
proof -
  have b: "\<bar>sint (2850 :: 64 word)\<bar> < 2 ^ 53" by simp
  have "scale 2850 = f64_round (real_of_int (sint (2850 :: 64 word)) / 100)"
    using scaling_divides_by_100 [of 2850] b by blast
  then have 1: "scale 2850 = f64_round (2850 / 100)" by simp
  have k: "\<bar>57 :: int\<bar> < 2 ^ 53" by simp
  have lo: "pow2 4 \<le> \<bar>57 / 2 :: real\<bar>" by (simp add: pow2_def)
  have hi: "\<bar>57 / 2 :: real\<bar> < pow2 (4 + 1)" by (simp add: pow2_def)
  have p: "pow2 (4 - 52) = 1 / 2 ^ 48" by (simp add: pow2_def)
  have q: "(57 / 2 :: real) / pow2 (4 - 52) = real_of_int (57 * 2 ^ 47)" unfolding p by simp
  have "f64_round (57 / 2) = Fin (57 / 2)"
    by (rule f64_round_exact [OF lo hi _ _ q]) simp_all
  then have "f64_round (2850 / 100) = Fin (57 / 2)" by simp
  with b 1 show ?thesis by simp
qed

text \<open>
  C5, as amended. On a successful read the check prints the plugin's name, the severity
  word and a colon, then the location, \<open>temperature is\<close>, the external temperature with
  two decimals and \<open>c\<close>, a bar, and the two metrics with two decimals, then a newline;
  for a raw reading below \<open>2^52\<close> in magnitude the two decimals are those of the raw
  integer read as hundredths. In the end-to-end scenario the state is WARNING (36.20 is
  greater than 35.0) and the line printed is the one below.
\<close>

theorem status_line_printed:
  "(\<exists>st. fst (executeCheck plugin (reading l i e) w) = Returned st None
       \<and> stdout (snd (executeCheck plugin (reading l i e) w)) =
           stdout w @ Name plugin @ severity_label st @
           l @ '' temperature is '' @ fmt_f2 (scale e) @ ''c | tempager_internal='' @
           fmt_f2 (scale i) @ '', tempager_external='' @ fmt_f2 (scale e) @ nl)
   \<and> (\<bar>sint raw\<bar> < 2 ^ 52 \<longrightarrow> fmt_f2 (scale raw) = two_decimals (sint raw))
   \<and> fst (executeCheck scenario_plugin scenario_device world0) = Returned CheckStateWarning None
   \<and> stdout (snd (executeCheck scenario_plugin scenario_device world0)) =
       ''check-tempager-3e-temperature WARNING: Server Room temperature is 36.20c | tempager_internal=28.50, tempager_external=36.20'' @ nl"
proof (intro conjI impI)
  show "\<exists>st. fst (executeCheck plugin (reading l i e) w) = Returned st None
       \<and> stdout (snd (executeCheck plugin (reading l i e) w)) =
           stdout w @ Name plugin @ severity_label st @
           l @ '' temperature is '' @ fmt_f2 (scale e) @ ''c | tempager_internal='' @
           fmt_f2 (scale i) @ '', tempager_external='' @ fmt_f2 (scale e) @ nl"
    using executeCheck_reading_outcome [of plugin l i e w]
      executeCheck_reading_stdout [of plugin l i e w] by blast
next
  assume "\<bar>sint raw\<bar> < 2 ^ 52"
  then show "fmt_f2 (scale raw) = two_decimals (sint raw)" by (rule fmt_f2_scale)
next
  show "fst (executeCheck scenario_plugin scenario_device world0) = Returned CheckStateWarning None"
    by (simp add: scenario_device_def executeCheck_reading_outcome scenario_plugin_def
        scale_3620_gt_35 scale_3620_not_gt_40)
next
  have e: "fmt_f2 (scale 3620) = ''36.20''"
    using fmt_f2_scale [of 3620] by (simp add: two_decimals_def dec.simps digit_def)
  have i: "fmt_f2 (scale 2850) = ''28.50''"
    using fmt_f2_scale [of 2850] by (simp add: two_decimals_def dec.simps digit_def)
  show "stdout (snd (executeCheck scenario_plugin scenario_device world0)) =
       ''check-tempager-3e-temperature WARNING: Server Room temperature is 36.20c | tempager_internal=28.50, tempager_external=36.20'' @ nl"
    by (simp add: scenario_device_def executeCheck_reading_stdout scenario_plugin_def
        scale_3620_gt_35 scale_3620_not_gt_40 world0_def e i)
qed

text \<open>
  The two decimals of C5 at a negative reading.
\<close>

theorem status_line_printed_witness:
  "\<bar>sint (- 1234 :: 64 word)\<bar> < 2 ^ 52 \<and> fmt_f2 (scale (- 1234)) = ''-12.34''"
proof -
  have b: "\<bar>sint (- 1234 :: 64 word)\<bar> < 2 ^ 52" by simp
  have "fmt_f2 (scale (- 1234)) = two_decimals (sint (- 1234 :: 64 word))"
    using status_line_printed [of _ _ _ _ _ "- 1234"] b by blast
  then show ?thesis using b by (simp add: two_decimals_def dec.simps digit_def)
qed

text \<open>
  C5, as stated, fails in the end-to-end scenario: the state is not OK, and the line
  printed is not the bare status line.
\<close>

theorem scenario_line_counterexample:
  "fst (executeCheck scenario_plugin scenario_device world0) \<noteq> Returned CheckStateOK None
   \<and> stdout (snd (executeCheck scenario_plugin scenario_device world0)) \<noteq>
       ''Server Room temperature is 36.20c | tempager_internal=28.50, tempager_external=36.20''"
  by (simp add: scenario_device_def executeCheck_reading_outcome executeCheck_reading_stdout
      scenario_plugin_def scale_3620_gt_35 scale_3620_not_gt_40 world0_def)

text \<open>
  C6. The state depends on the external reading and the two thresholds only: two
  successful runs that agree on the raw external temperature and on both thresholds end
  in the same state, whatever their locations, internal readings, names, targets and
  earlier output are. The internal reading is printed, after \<open>tempager_internal=\<close>, and
  takes no part in the comparison.
\<close>

theorem severity_depends_on_external_only:
  "Warning p1 = Warning p2 \<Longrightarrow> Critical p1 = Critical p2 \<Longrightarrow>
     fst (executeCheck p1 (reading l1 i1 e) w1) = fst (executeCheck p2 (reading l2 i2 e) w2)
     \<and> (\<exists>pre post. stdout (snd (executeCheck p1 (reading l1 i1 e) w1)) =
            pre @ ''tempager_internal='' @ fmt_f2 (scale i1) @ post)"
proof (intro conjI)
  assume "Warning p1 = Warning p2" "Critical p1 = Critical p2"
  then show "fst (executeCheck p1 (reading l1 i1 e) w1) = fst (executeCheck p2 (reading l2 i2 e) w2)"
    by (simp add: executeCheck_reading_outcome)
next
  define st where "st = (if f64_gt (scale e) (Critical p1) then CheckStateCritical
               else if f64_gt (scale e) (Warning p1) then CheckStateWarning
               else CheckStateOK)"
  have "stdout (snd (executeCheck p1 (reading l1 i1 e) w1)) =
      (stdout w1 @ Name p1 @ severity_label st @ l1 @ '' temperature is '' @ fmt_f2 (scale e) @ ''c | '')
      @ ''tempager_internal='' @ fmt_f2 (scale i1) @ ('', tempager_external='' @ fmt_f2 (scale e) @ nl)"
    by (simp add: executeCheck_reading_stdout st_def)
  then show "\<exists>pre post. stdout (snd (executeCheck p1 (reading l1 i1 e) w1)) =
            pre @ ''tempager_internal='' @ fmt_f2 (scale i1) @ post"
    by blast
qed

text \<open>
  C6 on two runs that differ in name, target, location, internal reading and earlier
  output.
\<close>

theorem severity_depends_on_external_only_witness:
  "Warning scenario_plugin = Warning (scenario_plugin\<lparr>Name := ''other'', Target := ''10.0.0.6''\<rparr>)
   \<and> Critical scenario_plugin = Critical (scenario_plugin\<lparr>Name := ''other'', Target := ''10.0.0.6''\<rparr>)
   \<and> fst (executeCheck scenario_plugin (reading ''Server Room'' 2850 3620) world0) =
       fst (executeCheck (scenario_plugin\<lparr>Name := ''other'', Target := ''10.0.0.6''\<rparr>)
              (reading ''Attic'' 9999 3620) (printf ''earlier output'' world0))"
  using severity_depends_on_external_only
    [of scenario_plugin "scenario_plugin\<lparr>Name := ''other'', Target := ''10.0.0.6''\<rparr>"
        "''Server Room''" 2850 3620 world0 "''Attic''" 9999 "printf ''earlier output'' world0"]
  by (simp add: scenario_plugin_def)

text \<open>
  C7. After a successful \<open>Connect\<close> the connection is closed when \<open>executeCheck\<close> is left,
  on every path: whatever the device answers (an error of \<open>Get\<close>, variables of a wrong
  type, too few variables, a good reading), the calls made are exactly \<open>Connect\<close>,
  \<open>Get\<close>, \<open>Close\<close>, in this order, and the connection ends closed.
\<close>

theorem connection_closed_on_every_exit:
  "connect_err dev = None \<Longrightarrow>
     Conn (Default (snd (executeCheck plugin dev w))) = ConnClosed
     \<and> calls (snd (executeCheck plugin dev w)) = calls w @ [CallConnect, CallGet oids, CallClose]"
  by (simp add: executeCheck_connected gather_calls)

text \<open>
  C7 on a good reading, a failed \<open>Get\<close>, a nil location, and a response of one variable,
  which panics.
\<close>

theorem connection_closed_on_every_exit_witness:
  "Conn (Default (snd (executeCheck scenario_plugin scenario_device world0))) = ConnClosed
   \<and> calls (snd (executeCheck scenario_plugin scenario_device world0)) =
       [CallConnect, CallGet oids, CallClose]
   \<and> Conn (Default (snd (executeCheck scenario_plugin
         \<lparr>connect_err = None, get_result = Inl ''timeout''\<rparr> world0))) = ConnClosed
   \<and> Conn (Default (snd (executeCheck scenario_plugin (answers [pdu GoNil]) world0))) = ConnClosed
   \<and> fst (executeCheck scenario_plugin (answers [pdu (GoBytes ''Server Room'')]) world0) =
       IndexOutOfRange 1 1
   \<and> Conn (Default (snd (executeCheck scenario_plugin
         (answers [pdu (GoBytes ''Server Room'')]) world0))) = ConnClosed"
  using connection_closed_on_every_exit [of scenario_device scenario_plugin world0]
    connection_closed_on_every_exit
      [of "\<lparr>connect_err = None, get_result = Inl ''timeout''\<rparr>" scenario_plugin world0]
    connection_closed_on_every_exit [of "answers [pdu GoNil]" scenario_plugin world0]
    connection_closed_on_every_exit
      [of "answers [pdu (GoBytes ''Server Room'')]" scenario_plugin world0]
  by (simp add: scenario_device_def reading_def answers_def world0_def executeCheck_connected
      gather_answered interpret_result_def pdu_def)

text \<open>
  C8. The thresholds are not checked against each other: \<open>checkArgs\<close> does not look at
  them. When the warning threshold is greater than or equal to the critical one, a
  temperature that is not above the critical threshold is not above the warning one
  either, so every successful reading is CRITICAL (above the critical threshold) or OK,
  never WARNING.
\<close>

theorem warning_unreachable_when_thresholds_inverted:
  "f64_ge (Warning plugin) (Critical plugin) \<Longrightarrow>
     fst (report plugin x t w) =
       Returned (if f64_gt x (Critical plugin) then CheckStateCritical else CheckStateOK) None
     \<and> fst (executeCheck plugin (reading l i e) w) =
       Returned (if f64_gt (scale e) (Critical plugin) then CheckStateCritical else CheckStateOK) None
     \<and> fst (executeCheck plugin (reading l i e) w) \<noteq> Returned CheckStateWarning None
     \<and> checkArgs parseIP (plugin\<lparr>Warning := a, Critical := b\<rparr>) w = checkArgs parseIP plugin w"
proof (intro conjI)
  assume g: "f64_ge (Warning plugin) (Critical plugin)"
  show 1: "fst (report plugin x t w) =
       Returned (if f64_gt x (Critical plugin) then CheckStateCritical else CheckStateOK) None" for x
    using f64_ge_blocks_warning [OF g, of x] by (auto simp: report_outcome)
  show 2: "fst (executeCheck plugin (reading l i e) w) =
       Returned (if f64_gt (scale e) (Critical plugin) then CheckStateCritical else CheckStateOK) None"
    using f64_ge_blocks_warning [OF g, of "scale e"] by (auto simp: executeCheck_reading_outcome)
  show "fst (executeCheck plugin (reading l i e) w) \<noteq> Returned CheckStateWarning None"
    by (simp add: 2)
  show "checkArgs parseIP (plugin\<lparr>Warning := a, Critical := b\<rparr>) w = checkArgs parseIP plugin w"
    by (simp add: checkArgs_def)
qed

text \<open>
  C8 with the two default thresholds exchanged: 36.20 is CRITICAL and 35.00 is OK.
\<close>

theorem warning_unreachable_when_thresholds_inverted_witness:
  "f64_ge (Warning (scenario_plugin\<lparr>Warning := Fin 40, Critical := Fin 35\<rparr>))
          (Critical (scenario_plugin\<lparr>Warning := Fin 40, Critical := Fin 35\<rparr>))
   \<and> fst (executeCheck (scenario_plugin\<lparr>Warning := Fin 40, Critical := Fin 35\<rparr>)
            (reading ''Server Room'' 2850 3620) world0) = Returned CheckStateCritical None
   \<and> fst (executeCheck (scenario_plugin\<lparr>Warning := Fin 40, Critical := Fin 35\<rparr>)
            (reading ''Server Room'' 2850 3500) world0) = Returned CheckStateOK None"
proof -
  define p where "p = scenario_plugin\<lparr>Warning := Fin 40, Critical := Fin 35\<rparr>"
  have g: "f64_ge (Warning p) (Critical p)" by (simp add: p_def scenario_plugin_def)
  have c: "Critical p = Fin 35" by (simp add: p_def scenario_plugin_def)
  have "fst (executeCheck p (reading ''Server Room'' 2850 3620) world0) =
      Returned (if f64_gt (scale 3620) (Critical p) then CheckStateCritical else CheckStateOK) None"
    using warning_unreachable_when_thresholds_inverted [OF g] by blast
  then have 1: "fst (executeCheck p (reading ''Server Room'' 2850 3620) world0) =
      Returned CheckStateCritical None"
    by (simp add: c scale_3620_gt_35)
  have "fst (executeCheck p (reading ''Server Room'' 2850 3500) world0) =
      Returned (if f64_gt (scale 3500) (Critical p) then CheckStateCritical else CheckStateOK) None"
    using warning_unreachable_when_thresholds_inverted [OF g] by blast
  then have 2: "fst (executeCheck p (reading ''Server Room'' 2850 3500) world0) =
      Returned CheckStateOK None"
    by (simp add: c scale_3500)
  from g 1 2 show ?thesis unfolding p_def by simp
qed

text \<open>
  C9. \<open>executeCheck\<close> indexes the variables at 0, 1 and 2 without looking at their number.
  With three variables or more it never panics. With fewer, it panics with an index out
  of range exactly when the variables that are present pass their type assertions (a
  well-formed but shorter response); nothing is printed then and no named error is
  produced. The panic is at index 0 of 0, 1 of 1 or 2 of 2.
\<close>

theorem short_response_panics:
  "((\<exists>k n. fst (executeCheck plugin (answers vs) w) = IndexOutOfRange k n)
      \<longleftrightarrow> (length vs < 3 \<and> typed_prefix vs))
   \<and> fst (executeCheck plugin (answers []) w) = IndexOutOfRange 0 0
   \<and> fst (executeCheck plugin (answers [pdu (GoBytes l)]) w) = IndexOutOfRange 1 1
   \<and> fst (executeCheck plugin (answers [pdu (GoBytes l), pdu (GoInt i)]) w) = IndexOutOfRange 2 2
   \<and> stdout (snd (executeCheck plugin (answers [pdu (GoBytes l), pdu (GoInt i)]) w)) = stdout w
   \<and> fst (executeCheck plugin (answers (a # b # c # rest)) w) \<noteq> IndexOutOfRange k n"
proof (intro conjI)
  show "(\<exists>k n. fst (executeCheck plugin (answers vs) w) = IndexOutOfRange k n)
      \<longleftrightarrow> (length vs < 3 \<and> typed_prefix vs)"
    by (simp add: executeCheck_answers interpret_result_panics)
  show "fst (executeCheck plugin (answers []) w) = IndexOutOfRange 0 0"
    by (simp add: executeCheck_answers interpret_result_def)
  show "fst (executeCheck plugin (answers [pdu (GoBytes l)]) w) = IndexOutOfRange 1 1"
    by (simp add: executeCheck_answers interpret_result_def pdu_def)
  show "fst (executeCheck plugin (answers [pdu (GoBytes l), pdu (GoInt i)]) w) = IndexOutOfRange 2 2"
    by (simp add: executeCheck_answers interpret_result_def pdu_def)
  show "stdout (snd (executeCheck plugin (answers [pdu (GoBytes l), pdu (GoInt i)]) w)) = stdout w"
    by (simp add: executeCheck_answers interpret_result_def pdu_def)
  have "\<not> (\<exists>k n. fst (executeCheck plugin (answers (a # b # c # rest)) w) = IndexOutOfRange k n)"
    by (simp only: executeCheck_answers fst_conv interpret_result_panics) simp
  then show "fst (executeCheck plugin (answers (a # b # c # rest)) w) \<noteq> IndexOutOfRange k n"
    by blast
qed

text \<open>
  C10. Each type assertion accepts one dynamic type: \<open>assert_bytes\<close> succeeds exactly on
  a byte slice and \<open>assert_int\<close> exactly on a native \<open>int\<close>. A location of any other type
  is rejected with the location message; after a good location, an internal temperature
  of any other type (an \<open>int64\<close>, a \<open>uint\<close>, a float, nil) is rejected with the internal
  temperature message; after both, an external temperature of any other type is rejected
  with the external temperature message; all three are critical. Three values of the
  right types are accepted and the run is that of a successful read.
\<close>

theorem type_assertions_exact:
  "((\<exists>b. assert_bytes v = Some b) \<longleftrightarrow> (\<exists>b. v = GoBytes b))
   \<and> ((\<exists>n. assert_int v = Some n) \<longleftrightarrow> (\<exists>n. v = GoInt n))
   \<and> ((\<forall>b. v0 \<noteq> GoBytes b) \<longrightarrow>
        fst (executeCheck plugin (answers (pdu v0 # pdu v1 # pdu v2 # rest)) w) =
          Returned CheckStateCritical None
        \<and> stdout (snd (executeCheck plugin (answers (pdu v0 # pdu v1 # pdu v2 # rest)) w)) =
          stdout w @ Name plugin @ '' CRITICAL: failed to read location.'' @ nl)
   \<and> ((\<forall>n. v1 \<noteq> GoInt n) \<longrightarrow>
        fst (executeCheck plugin (answers (pdu (GoBytes l) # pdu v1 # pdu v2 # rest)) w) =
          Returned CheckStateCritical None
        \<and> stdout (snd (executeCheck plugin (answers (pdu (GoBytes l) # pdu v1 # pdu v2 # rest)) w)) =
          stdout w @ Name plugin @ '' CRITICAL: failed to read internal temperature.'' @ nl)
   \<and> ((\<forall>n. v2 \<noteq> GoInt n) \<longrightarrow>
        fst (executeCheck plugin (answers (pdu (GoBytes l) # pdu (GoInt i) # pdu v2 # rest)) w) =
          Returned CheckStateCritical None
        \<and> stdout (snd (executeCheck plugin
            (answers (pdu (GoBytes l) # pdu (GoInt i) # pdu v2 # rest)) w)) =
          stdout w @ Name plugin @ '' CRITICAL: failed to read external temperature.'' @ nl)
   \<and> executeCheck plugin (answers (pdu (GoBytes l) # pdu (GoInt i) # pdu (GoInt e) # rest)) w =
        executeCheck plugin (reading l i e) w"
proof -
  have ab: "(\<exists>b. assert_bytes v = Some b) \<longleftrightarrow> (\<exists>b. v = GoBytes b)" for v
    by (cases v) simp_all
  have ai: "(\<exists>n. assert_int v = Some n) \<longleftrightarrow> (\<exists>n. v = GoInt n)" for v
    by (cases v) simp_all
  have nb: "assert_bytes v = None" if "\<forall>b. v \<noteq> GoBytes b" for v
    using that by (cases v) simp_all
  have ni: "assert_int v = None" if "\<forall>n. v \<noteq> GoInt n" for v
    using that by (cases v) simp_all
  show ?thesis
  proof (intro conjI impI)
    show "(\<exists>b. assert_bytes v = Some b) \<longleftrightarrow> (\<exists>b. v = GoBytes b)" by (rule ab)
    show "(\<exists>n. assert_int v = Some n) \<longleftrightarrow> (\<exists>n. v = GoInt n)" by (rule ai)
    show "executeCheck plugin (answers (pdu (GoBytes l) # pdu (GoInt i) # pdu (GoInt e) # rest)) w =
        executeCheck plugin (reading l i e) w"
      by (simp add: executeCheck_answers reading_def interpret_result_accepted)
  next
    assume "\<forall>b. v0 \<noteq> GoBytes b"
    then have a: "assert_bytes v0 = None" by (rule nb)
    show "fst (executeCheck plugin (answers (pdu v0 # pdu v1 # pdu v2 # rest)) w) =
          Returned CheckStateCritical None"
      and "stdout (snd (executeCheck plugin (answers (pdu v0 # pdu v1 # pdu v2 # rest)) w)) =
          stdout w @ Name plugin @ '' CRITICAL: failed to read location.'' @ nl"
      by (simp_all add: executeCheck_answers interpret_result_location [OF a] stdout_printf)
  next
    assume "\<forall>n. v1 \<noteq> GoInt n"
    then have b: "assert_int v1 = None" by (rule ni)
    have a: "assert_bytes (GoBytes l) = Some l" by simp
    show "fst (executeCheck plugin (answers (pdu (GoBytes l) # pdu v1 # pdu v2 # rest)) w) =
          Returned CheckStateCritical None"
      and "stdout (snd (executeCheck plugin (answers (pdu (GoBytes l) # pdu v1 # pdu v2 # rest)) w)) =
          stdout w @ Name plugin @ '' CRITICAL: failed to read internal temperature.'' @ nl"
      by (simp_all add: executeCheck_answers interpret_result_internal [OF a b] stdout_printf)
  next
    assume "\<forall>n. v2 \<noteq> GoInt n"
    then have c: "assert_int v2 = None" by (rule ni)
    have a: "assert_bytes (GoBytes l) = Some l" and b: "assert_int (GoInt i) = Some i" by simp_all
    show "fst (executeCheck plugin (answers (pdu (GoBytes l) # pdu (GoInt i) # pdu v2 # rest)) w) =
          Returned CheckStateCritical None"
      and "stdout (snd (executeCheck plugin
            (answers (pdu (GoBytes l) # pdu (GoInt i) # pdu v2 # rest)) w)) =
          stdout w @ Name plugin @ '' CRITICAL: failed to read external temperature.'' @ nl"
      by (simp_all add: executeCheck_answers interpret_result_external [OF a b c] stdout_printf)
  qed
qed

text \<open>
  C10 on a location sent as a string and temperatures sent as \<open>int64\<close>, \<open>uint\<close> and
  \<open>float64\<close>.
\<close>

theorem type_assertions_exact_witness:
  "stdout (snd (executeCheck scenario_plugin
      (answers [pdu (GoString ''Server Room''), pdu (GoInt 2850), pdu (GoInt 3620)]) world0)) =
     ''check-tempager-3e-temperature CRITICAL: failed to read location.'' @ nl
   \<and> stdout (snd (executeCheck scenario_plugin
      (answers [pdu (GoBytes ''Server Room''), pdu (GoInt64 2850), pdu (GoInt 3620)]) world0)) =
     ''check-tempager-3e-temperature CRITICAL: failed to read internal temperature.'' @ nl
   \<and> stdout (snd (executeCheck scenario_plugin
      (answers [pdu (GoBytes ''Server Room''), pdu (GoUint 2850), pdu (GoInt 3620)]) world0)) =
     ''check-tempager-3e-temperature CRITICAL: failed to read internal temperature.'' @ nl
   \<and> stdout (snd (executeCheck scenario_plugin
      (answers [pdu (GoBytes ''Server Room''), pdu (GoInt 2850), pdu (GoFloat64 (Fin 36.2))]) world0)) =
     ''check-tempager-3e-temperature CRITICAL: failed to read external temperature.'' @ nl
   \<and> fst (executeCheck scenario_plugin
      (answers [pdu (GoBytes ''Server Room''), pdu (GoInt 2850), pdu (GoFloat64 (Fin 36.2))]) world0) =
     Returned CheckStateCritical None"
  using type_assertions_exact
      [where plugin = scenario_plugin and w = world0 and rest = "[]"
         and ?v0.0 = "GoString ''Server Room''" and ?v1.0 = "GoInt 2850" and ?v2.0 = "GoInt 3620"]
    type_assertions_exact
      [where plugin = scenario_plugin and w = world0 and rest = "[]"
         and l = "''Server Room''" and ?v1.0 = "GoInt64 2850" and ?v2.0 = "GoInt 3620"]
    type_assertions_exact
      [where plugin = scenario_plugin and w = world0 and rest = "[]"
         and l = "''Server Room''" and ?v1.0 = "GoUint 2850" and ?v2.0 = "GoInt 3620"]
    type_assertions_exact
      [where plugin = scenario_plugin and w = world0 and rest = "[]"
         and l = "''Server Room''" and i = 2850 and ?v2.0 = "GoFloat64 (Fin 36.2)"]
  by (simp add: scenario_plugin_def world0_def)

end
